theory Spec2Isabelle
  imports Complex_Main "HOL-Library.Sublist"
begin

section \<open>Text helpers of the Python runtime\<close>

text \<open>
  Text is a list of 8-bit characters (code points below 256).  The helpers follow
  Python's \<^verbatim>\<open>str\<close> methods on that range.  Three letters (181, 223, 255) have an
  upper-case form outside the range; \<open>py_upper_char\<close> leaves them unchanged.
\<close>

definition py_lower_char :: "char \<Rightarrow> char" where
  "py_lower_char c =
     (let n = (of_char c :: nat)
      in if (65 \<le> n \<and> n \<le> 90) \<or> (192 \<le> n \<and> n \<le> 222 \<and> n \<noteq> 215)
         then char_of (n + 32) else c)"

definition py_upper_char :: "char \<Rightarrow> char" where
  "py_upper_char c =
     (let n = (of_char c :: nat)
      in if (97 \<le> n \<and> n \<le> 122) \<or> (224 \<le> n \<and> n \<le> 254 \<and> n \<noteq> 247)
         then char_of (n - 32) else c)"

definition py_lower :: "string \<Rightarrow> string" where
  "py_lower s = map py_lower_char s"

definition py_upper :: "string \<Rightarrow> string" where
  "py_upper s = map py_upper_char s"

fun py_capitalize :: "string \<Rightarrow> string" where
  "py_capitalize [] = []"
| "py_capitalize (c # cs) = py_upper_char c # py_lower cs"

definition py_isspace :: "char \<Rightarrow> bool" where
  "py_isspace c =
     (let n = (of_char c :: nat)
      in (9 \<le> n \<and> n \<le> 13) \<or> (28 \<le> n \<and> n \<le> 32) \<or> n = 133 \<or> n = 160)"

definition py_strip :: "string \<Rightarrow> string" where
  "py_strip s = rev (dropWhile py_isspace (rev (dropWhile py_isspace s)))"

definition removeprefix :: "string \<Rightarrow> string \<Rightarrow> string" where
  "removeprefix p s = (if prefix p s then drop (length p) s else s)"

definition removesuffix :: "string \<Rightarrow> string \<Rightarrow> string" where
  "removesuffix p s =
     (if p \<noteq> [] \<and> suffix p s then take (length s - length p) s else s)"

fun py_join :: "string \<Rightarrow> string list \<Rightarrow> string" where
  "py_join sep [] = []"
| "py_join sep [x] = x"
| "py_join sep (x # y # ys) = x @ sep @ py_join sep (y # ys)"

text \<open>Python's \<^verbatim>\<open>needle in haystack\<close> on strings: a contiguous occurrence.\<close>

fun py_in :: "string \<Rightarrow> string \<Rightarrow> bool" where
  "py_in needle [] = (needle = [])"
| "py_in needle (c # cs) = (prefix needle (c # cs) \<or> py_in needle cs)"

section \<open>Token-budgeted history (agent/nodes.py)\<close>

text \<open>
  A history turn is a dictionary with the keys \<^verbatim>\<open>role\<close> and \<^verbatim>\<open>content\<close>.
  The tokenizer is an external library; \<open>count_tokens\<close> takes it as the parameter
  \<open>ct\<close>, the number of tokens of a text.
\<close>

record turn =
  role :: string
  content :: string

definition turn_text :: "turn \<Rightarrow> string" where
  "turn_text t = py_capitalize (role t) @ '': '' @ content t"

text \<open>
  The \<^verbatim>\<open>for\<close> loop of \<^verbatim>\<open>format_conversation_history\<close> over the reversed history:
  \<open>acc\<close> is \<^verbatim>\<open>formatted_history\<close>, \<open>cur\<close> is \<^verbatim>\<open>current_tokens\<close>; the
  \<^verbatim>\<open>else\<close> branch is the \<^verbatim>\<open>break\<close>.
\<close>

fun history_loop :: "(string \<Rightarrow> nat) \<Rightarrow> int \<Rightarrow> turn list \<Rightarrow> string list \<Rightarrow> int \<Rightarrow> string list" where
  "history_loop ct max_tokens [] acc cur = acc"
| "history_loop ct max_tokens (t # ts) acc cur =
     (let turn_tokens = int (ct (turn_text t))
      in if cur + turn_tokens \<le> max_tokens
         then history_loop ct max_tokens ts (acc @ [turn_text t]) (cur + turn_tokens)
         else acc)"

definition formatted_history :: "(string \<Rightarrow> nat) \<Rightarrow> turn list \<Rightarrow> int \<Rightarrow> string list" where
  "formatted_history ct history max_tokens = history_loop ct max_tokens (rev history) [] 0"

definition format_conversation_history :: "(string \<Rightarrow> nat) \<Rightarrow> turn list \<Rightarrow> int \<Rightarrow> string" where
  "format_conversation_history ct history max_tokens =
     py_join [CHR 0x0A] (rev (formatted_history ct history max_tokens))"

text \<open>The tokens of a list of turns, as the loop counts them.\<close>

definition turn_tokens_sum :: "(string \<Rightarrow> nat) \<Rightarrow> turn list \<Rightarrow> int" where
  "turn_tokens_sum ct ts = (\<Sum>t\<leftarrow>ts. int (ct (turn_text t)))"


section \<open>Configuration (config.py)\<close>

definition EMBEDDING_MODEL_NAME :: string where
  "EMBEDDING_MODEL_NAME = ''all-MiniLM-L6-v2''"

definition MAX_CONVERSATION_HISTORY_TOKENS :: int where
  "MAX_CONVERSATION_HISTORY_TOKENS = 3000"

definition POTENTIAL_RISK_KEYWORDS :: "string list" where
  "POTENTIAL_RISK_KEYWORDS =
     [''suicide'', ''kill myself'', ''hopeless'', ''can't go on'', ''self-harm'', ''abuse'']"

definition ESCALATION_MESSAGE :: string where
  "ESCALATION_MESSAGE =
     ''\<newline>I understand you're going through immense pain right now. As an AI, I'm not equipped to handle crises like this, but you don't have to face this alone. Please reach out to a crisis hotline or mental health professional immediately. Here are some resources: [Include relevant local/international hotline numbers/links]. They can offer the support you need.\<newline>''"

section \<open>Values, state and collaborators\<close>

text \<open>
  The analysis is whatever \<^verbatim>\<open>json.loads\<close> returns.  \<open>truthy\<close> is Python's truth
  value of it; \<open>dict_get\<close> is \<^verbatim>\<open>d.get(key, default)\<close>.
\<close>

datatype json =
  JNull | JBool bool | JNum rat | JStr string | JList "json list" | JDict "(string \<times> json) list"

fun truthy :: "json \<Rightarrow> bool" where
  "truthy JNull = False"
| "truthy (JBool b) = b"
| "truthy (JNum r) = (r \<noteq> 0)"
| "truthy (JStr s) = (s \<noteq> [])"
| "truthy (JList xs) = (xs \<noteq> [])"
| "truthy (JDict d) = (d \<noteq> [])"

definition dict_get :: "(string \<times> json) list \<Rightarrow> string \<Rightarrow> json \<Rightarrow> json" where
  "dict_get d key dflt = (case map_of d key of None \<Rightarrow> dflt | Some v \<Rightarrow> v)"

text \<open>Truth value of an optional string, and \<^verbatim>\<open>(x or "")\<close>.\<close>

definition truthy_str :: "string option \<Rightarrow> bool" where
  "truthy_str x = (case x of None \<Rightarrow> False | Some s \<Rightarrow> s \<noteq> [])"

definition or_empty :: "string option \<Rightarrow> string" where
  "or_empty x = (case x of None \<Rightarrow> [] | Some s \<Rightarrow> s)"

text \<open>
  A retrieved memory is the dictionary \<^verbatim>\<open>{document, metadata, distance}\<close>; a stored
  one is what \<^verbatim>\<open>collection.add\<close> receives.  Floating-point numbers are values of a
  linearly ordered type \<open>'f\<close>.
\<close>

record 'f memory =
  document :: string
  metadata :: "(string \<times> string) list"
  distance :: 'f

record 'f stored_memory =
  memory_id :: string
  embedding :: "'f list"
  stored_document :: string
  stored_metadata :: "(string \<times> string) list"

record 'f query_result =
  documents :: "string list"
  metadatas :: "(string \<times> string) list list"
  distances :: "'f list"

record 'f agent_state =
  session_id :: string
  user_input :: string
  input_analysis :: "json option"
  retrieved_memories :: "'f memory list option"
  conversation_history :: "turn list"
  response_strategy :: "string option"
  generated_response :: "string option"
  needs_escalation :: bool
  error :: "string option"

datatype prompt =
  INPUT_ANALYSIS_PROMPT | RESPONSE_GENERATION_PROMPT
| ETHICAL_RISK_ASSESSMENT_PROMPT | MEMORY_RETRIEVAL_QUERY_PROMPT

text \<open>
  The process-wide state: the two lazily created singletons (\<^verbatim>\<open>_model\<close>,
  \<^verbatim>\<open>_collection\<close>), the contents of the persistent collection, the sources of
  identifiers and timestamps, and the log of the calls made to the language model, the
  embedding model and the collection.
\<close>

datatype call =
  LLMCall prompt
| EncodeCall string
| AddCall string "(string \<times> string) list"
| QueryCall int "(string \<times> string) list option"

record 'f world =
  model_loaded :: bool
  collection_open :: bool
  entries :: "'f stored_memory list"
  uuid_count :: nat
  clock :: nat
  calls :: "call list"

text \<open>
  The external collaborators.  \<open>None\<close> stands for a raised exception:
  \<open>chain_invoke\<close> is \<^verbatim>\<open>(prompt | llm | StrOutputParser()).invoke\<close>,
  \<open>json_loads\<close> fails with \<^verbatim>\<open>JSONDecodeError\<close>, \<open>encode\<close> is
  \<^verbatim>\<open>model.encode(text).tolist()\<close>; \<open>load_model\<close> and \<open>open_collection\<close> say
  whether creating the singleton succeeds; \<open>collection_add\<close> says whether the
  collection accepts an entry; \<open>fmt_relevance d\<close> is the text of \<^verbatim>\<open>1 - d\<close> with two
  decimals.
\<close>

record 'f env =
  tokenizer_encode :: "string \<Rightarrow> nat list"
  chain_invoke :: "prompt \<Rightarrow> (string \<times> json) list \<Rightarrow> string option"
  json_loads :: "string \<Rightarrow> json option"
  json_dumps :: "json \<Rightarrow> string"
  py_str :: "json \<Rightarrow> string"
  fmt_relevance :: "'f \<Rightarrow> string"
  load_model :: bool
  encode :: "string \<Rightarrow> 'f list option"
  open_collection :: bool
  collection_add :: "'f stored_memory list \<Rightarrow> 'f stored_memory \<Rightarrow> bool"
  collection_query ::
    "'f stored_memory list \<Rightarrow> 'f list \<Rightarrow> int \<Rightarrow> (string \<times> string) list option \<Rightarrow> 'f query_result option"
  uuid4 :: "nat \<Rightarrow> string"
  utcnow_isoformat :: "nat \<Rightarrow> string"

datatype exn = ModelLoadError | CollectionInitError | AttributeError | GraphError

text \<open>An operation runs in a world and returns a value or a raised exception.\<close>

type_synonym ('a, 'f) io = "'f world \<Rightarrow> (exn + 'a) \<times> 'f world"

definition ok :: "'a \<Rightarrow> ('a, 'f) io" where
  "ok a w = (Inr a, w)"

definition raise :: "exn \<Rightarrow> ('a, 'f) io" where
  "raise e w = (Inl e, w)"

definition and_then :: "('a, 'f) io \<Rightarrow> ('a \<Rightarrow> ('b, 'f) io) \<Rightarrow> ('b, 'f) io" where
  "and_then m f w = (case m w of (Inl e, w1) \<Rightarrow> (Inl e, w1) | (Inr a, w1) \<Rightarrow> f a w1)"

definition except :: "('a, 'f) io \<Rightarrow> (exn \<Rightarrow> ('a, 'f) io) \<Rightarrow> ('a, 'f) io" where
  "except m h w = (case m w of (Inl e, w1) \<Rightarrow> h e w1 | (Inr a, w1) \<Rightarrow> (Inr a, w1))"

definition log_call :: "call \<Rightarrow> (unit, 'f) io" where
  "log_call c w = (Inr (), w\<lparr>calls := calls w @ [c]\<rparr>)"

definition count_tokens :: "'f env \<Rightarrow> string \<Rightarrow> nat" where
  "count_tokens env text = length (tokenizer_encode env text)"


section \<open>Embedding (memory/embedding.py)\<close>

definition get_embedding_model :: "'f env \<Rightarrow> (unit, 'f) io" where
  "get_embedding_model env w =
     (if model_loaded w then (Inr (), w)
      else if load_model env then (Inr (), w\<lparr>model_loaded := True\<rparr>)
      else (Inl ModelLoadError, w))"

definition get_embedding :: "'f env \<Rightarrow> string \<Rightarrow> ('f list option, 'f) io" where
  "get_embedding env text =
     and_then (get_embedding_model env) (\<lambda>_.
       if py_strip text = [] then ok None
       else and_then (log_call (EncodeCall text)) (\<lambda>_. ok (encode env text)))"

section \<open>Vector store (memory/vector_store.py)\<close>

definition get_chroma_collection :: "'f env \<Rightarrow> (unit, 'f) io" where
  "get_chroma_collection env w =
     (if collection_open w then (Inr (), w)
      else if open_collection env then (Inr (), w\<lparr>collection_open := True\<rparr>)
      else (Inl CollectionInitError, w))"

text \<open>
  \<^verbatim>\<open>add_memory\<close> with \<^verbatim>\<open>memory_id=None\<close>, as every caller has it.  An entry the
  collection refuses is logged and dropped.
\<close>

definition add_memory ::
  "'f env \<Rightarrow> 'f list option \<Rightarrow> string \<Rightarrow> (string \<times> string) list \<Rightarrow> (unit, 'f) io" where
  "add_memory env emb doc meta =
     and_then (get_chroma_collection env) (\<lambda>_.
       case emb of
         None \<Rightarrow> ok ()
       | Some v \<Rightarrow> (\<lambda>w.
           let entry = \<lparr>memory_id = uuid4 env (uuid_count w), embedding = v,
                        stored_document = doc, stored_metadata = meta\<rparr>;
               w1 = w\<lparr>uuid_count := Suc (uuid_count w), calls := calls w @ [AddCall doc meta]\<rparr>
           in if collection_add env (entries w1) entry
              then (Inr (), w1\<lparr>entries := entries w1 @ [entry]\<rparr>)
              else (Inr (), w1)))"

definition empty_result :: "'f query_result" where
  "empty_result = \<lparr>documents = [], metadatas = [], distances = []\<rparr>"

definition query_memories ::
  "'f env \<Rightarrow> 'f list option \<Rightarrow> int \<Rightarrow> (string \<times> string) list option \<Rightarrow> ('f query_result, 'f) io" where
  "query_memories env query_embedding n_results where_filter =
     and_then (get_chroma_collection env) (\<lambda>_.
       case query_embedding of
         None \<Rightarrow> ok empty_result
       | Some q \<Rightarrow>
           and_then (log_call (QueryCall n_results where_filter)) (\<lambda>_ w.
             case collection_query env (entries w) q n_results where_filter of
               None \<Rightarrow> (Inr empty_result, w)
             | Some results \<Rightarrow> (Inr results, w)))"

section \<open>Memory manager (memory/memory_manager.py)\<close>

definition now_isoformat :: "'f env \<Rightarrow> (string, 'f) io" where
  "now_isoformat env w = (Inr (utcnow_isoformat env (clock w)), w\<lparr>clock := Suc (clock w)\<rparr>)"

definition interaction_metadata :: "string \<Rightarrow> string \<Rightarrow> string \<Rightarrow> (string \<times> string) list" where
  "interaction_metadata who timestamp sid =
     [(''type'', ''episodic''), (''role'', who), (''timestamp'', timestamp),
      (''session_id'', sid), (''embedding_model'', EMBEDDING_MODEL_NAME)]"

text \<open>Truth value of an embedding: \<^verbatim>\<open>None\<close> and the empty list are false.\<close>

definition truthy_embedding :: "'f list option \<Rightarrow> bool" where
  "truthy_embedding e = (case e of None \<Rightarrow> False | Some v \<Rightarrow> v \<noteq> [])"

definition add_interaction :: "'f env \<Rightarrow> string \<Rightarrow> string \<Rightarrow> string \<Rightarrow> (unit, 'f) io" where
  "add_interaction env user_text ai_response sid =
     and_then (now_isoformat env) (\<lambda>timestamp.
       let user_doc = ''User said: '' @ user_text
       in and_then (get_embedding env user_doc) (\<lambda>user_embedding.
            let user_metadata = interaction_metadata ''user'' timestamp sid
            in and_then (if truthy_embedding user_embedding
                         then add_memory env user_embedding user_doc user_metadata
                         else ok ()) (\<lambda>_.
                 let ai_doc = ''AI responded: '' @ ai_response
                 in and_then (get_embedding env ai_doc) (\<lambda>ai_embedding.
                      let ai_metadata = interaction_metadata ''ai'' timestamp sid
                      in if truthy_embedding ai_embedding
                         then add_memory env ai_embedding ai_doc ai_metadata
                         else ok ()))))"

definition retrieve_relevant_memories ::
  "('f::linorder) env \<Rightarrow> string \<Rightarrow> string \<Rightarrow> int \<Rightarrow> ('f memory list, 'f) io" where
  "retrieve_relevant_memories env query_text sid n_results =
     and_then (get_embedding env query_text) (\<lambda>query_embedding.
       case query_embedding of
         None \<Rightarrow> ok []
       | Some q \<Rightarrow>
           (let where_filter = None
            in except
                 (and_then (query_memories env (Some q) n_results where_filter) (\<lambda>results.
                    ok (sort_key distance
                          (map (\<lambda>(doc, meta, dist). \<lparr>document = doc, metadata = meta, distance = dist\<rparr>)
                               (zip (documents results) (zip (metadatas results) (distances results)))))))
                 (\<lambda>e. ok [])))"


section \<open>Keyword check (prompts/system_prompts.py)\<close>

fun keyword_loop :: "string \<Rightarrow> string list \<Rightarrow> bool" where
  "keyword_loop text_lower [] = False"
| "keyword_loop text_lower (keyword # keywords) =
     (if py_in keyword text_lower then True else keyword_loop text_lower keywords)"

definition simple_keyword_check :: "string \<Rightarrow> string list \<Rightarrow> bool" where
  "simple_keyword_check text keywords = (let text_lower = py_lower text in keyword_loop text_lower keywords)"

section \<open>Graph nodes (agent/nodes.py)\<close>

text \<open>The dictionaries handed to \<^verbatim>\<open>chain.invoke\<close> by the four nodes.\<close>

definition history_str :: "'f env \<Rightarrow> 'f agent_state \<Rightarrow> int \<Rightarrow> string" where
  "history_str env state max_tokens =
     format_conversation_history (count_tokens env) (conversation_history state) max_tokens"

definition analysis_inputs :: "'f env \<Rightarrow> 'f agent_state \<Rightarrow> (string \<times> json) list" where
  "analysis_inputs env state =
     [(''user_input'', JStr (user_input state)),
      (''conversation_history'',
         JStr (history_str env state (MAX_CONVERSATION_HISTORY_TOKENS div 2)))]"

definition query_inputs :: "'f env \<Rightarrow> 'f agent_state \<Rightarrow> (string \<times> json) list \<Rightarrow> (string \<times> json) list" where
  "query_inputs env state analysis =
     [(''user_input'', JStr (user_input state)),
      (''key_topics'', dict_get analysis ''key_topics'' (JStr ''None'')),
      (''dominant_emotion'', dict_get analysis ''dominant_emotion'' (JStr ''neutral'')),
      (''conversation_history'',
         JStr (history_str env state (MAX_CONVERSATION_HISTORY_TOKENS div 4)))]"

definition ethical_inputs :: "'f env \<Rightarrow> 'f agent_state \<Rightarrow> (string \<times> json) list" where
  "ethical_inputs env state =
     [(''user_input'', JStr (user_input state)),
      (''conversation_history'',
         JStr (history_str env state (MAX_CONVERSATION_HISTORY_TOKENS div 4)))]"

definition formatted_memories :: "'f env \<Rightarrow> 'f memory list option \<Rightarrow> string" where
  "formatted_memories env memories =
     (case memories of
        None \<Rightarrow> ''No relevant memories found.''
      | Some ms \<Rightarrow>
          if ms = [] then ''No relevant memories found.''
          else py_join [CHR 0x0A]
                 (map (\<lambda>m. ''- '' @ document m @ '' (Relevance: '' @ fmt_relevance env (distance m) @ '')'')
                      (take 3 ms)))"

definition generation_inputs :: "'f env \<Rightarrow> 'f agent_state \<Rightarrow> (string \<times> json) list" where
  "generation_inputs env state =
     [(''user_input'', JStr (user_input state)),
      (''input_analysis'',
         JStr (json_dumps env (case input_analysis state of None \<Rightarrow> JNull | Some j \<Rightarrow> j))),
      (''retrieved_memories'', JStr (formatted_memories env (retrieved_memories state))),
      (''conversation_history'', JStr (history_str env state MAX_CONVERSATION_HISTORY_TOKENS))]"

definition clean_analysis :: "string \<Rightarrow> string" where
  "clean_analysis analysis_str =
     py_strip (removesuffix ''```'' (removeprefix ''```json'' (py_strip analysis_str)))"

definition process_input_node :: "'f env \<Rightarrow> 'f agent_state \<Rightarrow> ('f agent_state, 'f) io" where
  "process_input_node env state =
     and_then (log_call (LLMCall INPUT_ANALYSIS_PROMPT)) (\<lambda>_.
       case chain_invoke env INPUT_ANALYSIS_PROMPT (analysis_inputs env state) of
         None \<Rightarrow>
           ok (state\<lparr>error := Some ''An error occurred during input analysis.'',
                     input_analysis := Some (JDict [(''error'', JStr ''LLM call failed'')])\<rparr>)
       | Some analysis_str \<Rightarrow>
           (case json_loads env (clean_analysis analysis_str) of
              None \<Rightarrow>
                ok (state\<lparr>error := Some ''Failed to analyze input.'',
                          input_analysis := Some (JDict [(''error'', JStr ''JSON parsing failed'')])\<rparr>)
            | Some analysis_json \<Rightarrow> ok (state\<lparr>input_analysis := Some analysis_json\<rparr>)))"

definition fallback_query :: "'f env \<Rightarrow> 'f agent_state \<Rightarrow> (string \<times> json) list \<Rightarrow> string" where
  "fallback_query env state analysis =
     ''Topics: '' @ py_str env (dict_get analysis ''key_topics'' (JList []))
     @ '', Emotion: '' @ py_str env (dict_get analysis ''dominant_emotion'' (JStr ''neutral''))
     @ ''. User input: '' @ user_input state"

definition query_text :: "'f env \<Rightarrow> 'f agent_state \<Rightarrow> (string \<times> json) list \<Rightarrow> string" where
  "query_text env state analysis =
     (case chain_invoke env MEMORY_RETRIEVAL_QUERY_PROMPT (query_inputs env state analysis) of
        Some q \<Rightarrow> q
      | None \<Rightarrow> fallback_query env state analysis)"

text \<open>
  In \<^verbatim>\<open>retrieve_memory_node\<close> the test \<^verbatim>\<open>state['input_analysis'].get('error')\<close> is
  reached for a true analysis only; on a value that is not a dictionary it raises
  \<^verbatim>\<open>AttributeError\<close>, outside every \<^verbatim>\<open>try\<close>.
\<close>

definition retrieve_memory_node :: "('f::linorder) env \<Rightarrow> 'f agent_state \<Rightarrow> ('f agent_state, 'f) io" where
  "retrieve_memory_node env state =
     (if truthy_str (error state)
         \<or> \<not> (case input_analysis state of None \<Rightarrow> False | Some j \<Rightarrow> truthy j)
      then ok (state\<lparr>retrieved_memories := Some []\<rparr>)
      else case input_analysis state of
             Some (JDict analysis) \<Rightarrow>
               if truthy (dict_get analysis ''error'' JNull)
               then ok (state\<lparr>retrieved_memories := Some []\<rparr>)
               else and_then (log_call (LLMCall MEMORY_RETRIEVAL_QUERY_PROMPT)) (\<lambda>_.
                      except
                        (and_then
                           (retrieve_relevant_memories env (query_text env state analysis)
                              (session_id state) 5)
                           (\<lambda>retrieved. ok (state\<lparr>retrieved_memories := Some retrieved\<rparr>)))
                        (\<lambda>e. ok (state\<lparr>error := Some ''Failed to retrieve memories.'',
                                        retrieved_memories := Some []\<rparr>)))
           | _ \<Rightarrow> raise AttributeError)"

definition ethical_check_node :: "'f env \<Rightarrow> 'f agent_state \<Rightarrow> ('f agent_state, 'f) io" where
  "ethical_check_node env state =
     (if truthy_str (error state) then ok (state\<lparr>needs_escalation := False\<rparr>)
      else
        let keyword_hit = simple_keyword_check (user_input state) POTENTIAL_RISK_KEYWORDS
        in and_then (log_call (LLMCall ETHICAL_RISK_ASSESSMENT_PROMPT)) (\<lambda>_.
             case chain_invoke env ETHICAL_RISK_ASSESSMENT_PROMPT (ethical_inputs env state) of
               Some assessment \<Rightarrow>
                 ok (state\<lparr>needs_escalation :=
                       (if py_upper (py_strip assessment) = ''YES'' then True else keyword_hit)\<rparr>)
             | None \<Rightarrow>
                 ok (state\<lparr>error := Some (or_empty (error state) @ '' Ethical check LLM failed.''),
                           needs_escalation := keyword_hit\<rparr>)))"

definition generate_response_node :: "'f env \<Rightarrow> 'f agent_state \<Rightarrow> ('f agent_state, 'f) io" where
  "generate_response_node env state =
     (if truthy_str (error state)
      then ok (state\<lparr>generated_response :=
                 Some ''I'm sorry, I encountered an error. Could you please rephrase?''\<rparr>)
      else if needs_escalation state
      then ok (state\<lparr>generated_response := Some ESCALATION_MESSAGE\<rparr>)
      else and_then (log_call (LLMCall RESPONSE_GENERATION_PROMPT)) (\<lambda>_.
             case chain_invoke env RESPONSE_GENERATION_PROMPT (generation_inputs env state) of
               Some response \<Rightarrow>
                 (let state1 = state\<lparr>generated_response := Some response\<rparr>
                  in except
                       (and_then (add_interaction env (user_input state) response (session_id state))
                          (\<lambda>_. ok state1))
                       (\<lambda>mem_e. ok (state1\<lparr>error :=
                            Some (or_empty (error state1) @ '' Failed to save interaction to memory.'')\<rparr>)))
             | None \<Rightarrow>
                 ok (state\<lparr>error := Some (or_empty (error state) @ '' Failed to generate response.''),
                           generated_response :=
                             Some ''I'm having trouble formulating a response right now. Could you try saying that differently?''\<rparr>)))"

definition should_continue :: "'f agent_state \<Rightarrow> string" where
  "should_continue state =
     (if truthy_str (error state) then ''end''
      else if needs_escalation state then ''generate_response''
      else ''generate_response'')"

section \<open>The graph (agent/graph.py) and the initial state (main.py)\<close>

datatype node = process_input | retrieve_memory | ethical_check | generate_response | END

definition conditional_edges :: "string \<Rightarrow> node option" where
  "conditional_edges = map_of [(''generate_response'', generate_response), (''end'', END)]"

text \<open>
  One invocation of the compiled graph: the entry point, the two fixed edges, the
  conditional edge after \<open>ethical_check\<close>, and the edge from \<open>generate_response\<close> to
  \<open>END\<close>.
\<close>

definition soulstice_app_invoke :: "('f::linorder) env \<Rightarrow> 'f agent_state \<Rightarrow> ('f agent_state, 'f) io" where
  "soulstice_app_invoke env state =
     and_then (process_input_node env state) (\<lambda>s1.
       and_then (retrieve_memory_node env s1) (\<lambda>s2.
         and_then (ethical_check_node env s2) (\<lambda>s3.
           case conditional_edges (should_continue s3) of
             Some generate_response \<Rightarrow> generate_response_node env s3
           | Some END \<Rightarrow> ok s3
           | _ \<Rightarrow> raise GraphError)))"

definition current_state :: "string \<Rightarrow> string \<Rightarrow> turn list \<Rightarrow> 'f agent_state" where
  "current_state sid text history =
     \<lparr>session_id = sid, user_input = text, input_analysis = None, retrieved_memories = None,
      conversation_history = history, response_strategy = None, generated_response = None,
      needs_escalation = False, error = None\<rparr>"


section \<open>Example collaborators\<close>

text \<open>
  A healthy set of collaborators, used to run the definitions on concrete turns: one
  token per character, an analysis that parses to a dictionary, the answer \<^verbatim>\<open>NO\<close> from
  the risk assessment, a one-dimensional embedding and a collection that accepts every
  entry.  The other examples break one collaborator each.
\<close>

definition healthy_env :: "rat env" where
  "healthy_env =
     \<lparr>tokenizer_encode = map of_char,
      chain_invoke = (\<lambda>p inputs. Some (case p of
          INPUT_ANALYSIS_PROMPT \<Rightarrow> ''analysis''
        | MEMORY_RETRIEVAL_QUERY_PROMPT \<Rightarrow> ''rough day at work''
        | ETHICAL_RISK_ASSESSMENT_PROMPT \<Rightarrow> ''NO''
        | RESPONSE_GENERATION_PROMPT \<Rightarrow> ''Here's my question back to you: what made today hard?'')),
      json_loads = (\<lambda>s. if s = ''analysis''
                        then Some (JDict [(''dominant_emotion'', JStr ''sadness''),
                                          (''key_topics'', JList [JStr ''work''])])
                        else None),
      json_dumps = (\<lambda>j. ''{}''),
      py_str = (\<lambda>j. ''work''),
      fmt_relevance = (\<lambda>d. ''0.50''),
      load_model = True,
      encode = (\<lambda>s. Some [1]),
      open_collection = True,
      collection_add = (\<lambda>es e. True),
      collection_query = (\<lambda>es q n f.
          Some \<lparr>documents = map stored_document (take (nat n) es),
                metadatas = map stored_metadata (take (nat n) es),
                distances = map (\<lambda>e. 0) (take (nat n) es)\<rparr>),
      uuid4 = (\<lambda>n. replicate (Suc n) CHR ''u''),
      utcnow_isoformat = (\<lambda>n. replicate (Suc n) CHR ''t'')\<rparr>"

definition analysis_down_env :: "rat env" where
  "analysis_down_env =
     healthy_env\<lparr>chain_invoke :=
       (\<lambda>p inputs. if p = INPUT_ANALYSIS_PROMPT then None else chain_invoke healthy_env p inputs)\<rparr>"

definition unparsable_analysis_env :: "rat env" where
  "unparsable_analysis_env = healthy_env\<lparr>json_loads := (\<lambda>s. None)\<rparr>"

definition assessment_down_env :: "rat env" where
  "assessment_down_env =
     healthy_env\<lparr>chain_invoke :=
       (\<lambda>p inputs. if p = ETHICAL_RISK_ASSESSMENT_PROMPT then None else chain_invoke healthy_env p inputs)\<rparr>"

definition no_model_env :: "rat env" where
  "no_model_env = healthy_env\<lparr>load_model := False\<rparr>"

definition encode_down_env :: "rat env" where
  "encode_down_env = healthy_env\<lparr>encode := (\<lambda>s. None)\<rparr>"

definition user_encode_down_env :: "rat env" where
  "user_encode_down_env =
     healthy_env\<lparr>encode := (\<lambda>s. if prefix ''User said: '' s then None else Some [1])\<rparr>"

definition refusing_env :: "rat env" where
  "refusing_env = healthy_env\<lparr>collection_add := (\<lambda>es e. False)\<rparr>"

text \<open>The world when the first turn starts: \<^verbatim>\<open>run_chat\<close> has opened the collection.\<close>

definition startup_world :: "rat world" where
  "startup_world =
     \<lparr>model_loaded = False, collection_open = True, entries = [], uuid_count = 0, clock = 0,
      calls = []\<rparr>"


text \<open>A world whose collection holds one entry written in session \<^verbatim>\<open>s2\<close>.\<close>

definition other_session_world :: "rat world" where
  "other_session_world =
     startup_world\<lparr>model_loaded := True,
       entries := [\<lparr>memory_id = ''u'', embedding = [1],
                    stored_document = ''User said: my exam is tomorrow'',
                    stored_metadata = interaction_metadata ''user'' ''t'' ''s2''\<rparr>]\<rparr>"

section \<open>The history formatter: budget and recency\<close>

lemma history_loop_extends: "prefix acc (history_loop ct b ts acc cur)"
proof (induction ts arbitrary: acc cur)
  case Nil
  show ?case by simp
next
  case (Cons t ts)
  have "prefix acc (history_loop ct b ts (acc @ [turn_text t]) c)" for c
    using Cons[of "acc @ [turn_text t]" c] by (rule append_prefixD)
  then show ?case by (simp add: Let_def)
qed

lemma history_loop_mono:
  "b1 \<le> b2 \<Longrightarrow> prefix (history_loop ct b1 ts acc cur) (history_loop ct b2 ts acc cur)"
proof (induction ts arbitrary: acc cur)
  case Nil
  show ?case by simp
next
  case (Cons t ts)
  show ?case
  proof (cases "cur + int (ct (turn_text t)) \<le> b1")
    case True
    with Cons show ?thesis by (simp add: Let_def)
  next
    case False
    then have "history_loop ct b1 (t # ts) acc cur = acc" by (simp add: Let_def)
    then show ?thesis using history_loop_extends[of acc ct b2 "t # ts" cur] by (simp only:)
  qed
qed

lemma history_loop_take:
  "\<exists>k\<le>length ts.
     history_loop ct b ts acc cur = acc @ map turn_text (take k ts)
     \<and> (0 < k \<longrightarrow> cur + turn_tokens_sum ct (take k ts) \<le> b)
     \<and> (k < length ts \<longrightarrow> b < cur + turn_tokens_sum ct (take (Suc k) ts))"
proof (induction ts arbitrary: acc cur)
  case Nil
  show ?case by simp
next
  case (Cons t ts)
  let ?n = "int (ct (turn_text t))"
  show ?case
  proof (cases "cur + ?n \<le> b")
    case True
    from Cons[of "acc @ [turn_text t]" "cur + ?n"] obtain k where k: "k \<le> length ts"
      "history_loop ct b ts (acc @ [turn_text t]) (cur + ?n) = (acc @ [turn_text t]) @ map turn_text (take k ts)"
      "0 < k \<longrightarrow> cur + ?n + turn_tokens_sum ct (take k ts) \<le> b"
      "k < length ts \<longrightarrow> b < cur + ?n + turn_tokens_sum ct (take (Suc k) ts)"
      by blast
    have "Suc k \<le> length (t # ts)" using k(1) by simp
    moreover have "history_loop ct b (t # ts) acc cur = acc @ map turn_text (take (Suc k) (t # ts))"
      using True k(2) by (simp add: Let_def)
    moreover have "cur + turn_tokens_sum ct (take (Suc k) (t # ts)) \<le> b"
      using True k(3) by (cases k) (simp_all add: turn_tokens_sum_def)
    moreover have "Suc k < length (t # ts) \<longrightarrow> b < cur + turn_tokens_sum ct (take (Suc (Suc k)) (t # ts))"
      using k(4) by (simp add: turn_tokens_sum_def add.assoc)
    ultimately show ?thesis by blast
  next
    case False
    then have "history_loop ct b (t # ts) acc cur = acc @ map turn_text (take 0 (t # ts))"
      by (simp add: Let_def)
    moreover have "b < cur + turn_tokens_sum ct (take (Suc 0) (t # ts))"
      using False by (simp add: turn_tokens_sum_def)
    ultimately show ?thesis by blast
  qed
qed

lemma py_join_suffix: "suffix xs ys \<Longrightarrow> suffix (py_join sep xs) (py_join sep ys)"
proof -
  have app: "py_join sep (zs @ xs) = (if zs = [] then py_join sep xs else if xs = [] then py_join sep zs
        else py_join sep zs @ sep @ py_join sep xs)" for zs xs
    by (induction sep zs rule: py_join.induct) (auto simp: neq_Nil_conv)
  assume "suffix xs ys"
  then obtain zs where "ys = zs @ xs" by (auto simp: suffix_def)
  then show ?thesis by (auto simp: app suffix_def)
qed


lemma turn_tokens_sum_rev: "turn_tokens_sum ct (rev ts) = turn_tokens_sum ct ts"
  by (simp add: turn_tokens_sum_def rev_map [symmetric])

lemma rev_take_rev: "rev (take k (rev xs)) = drop (length xs - k) xs"
  by (simp add: rev_take)

lemma formatted_history_drop:
  "\<exists>k\<le>length history.
     rev (formatted_history ct history b) = map turn_text (drop (length history - k) history)
     \<and> (0 < k \<longrightarrow> turn_tokens_sum ct (drop (length history - k) history) \<le> b)
     \<and> (k < length history \<longrightarrow> b < turn_tokens_sum ct (drop (length history - Suc k) history))"
proof -
  from history_loop_take[of "rev history" ct b "[]" 0]
  obtain k where k: "k \<le> length history"
    "history_loop ct b (rev history) [] 0 = map turn_text (take k (rev history))"
    "0 < k \<longrightarrow> turn_tokens_sum ct (take k (rev history)) \<le> b"
    "k < length history \<longrightarrow> b < turn_tokens_sum ct (take (Suc k) (rev history))"
    by auto
  have sum_eq: "turn_tokens_sum ct (take j (rev history)) = turn_tokens_sum ct (drop (length history - j) history)" for j
    using turn_tokens_sum_rev[of ct "take j (rev history)"] by (simp only: rev_take_rev)
  have "rev (formatted_history ct history b) = map turn_text (drop (length history - k) history)"
    unfolding formatted_history_def k(2) by (simp only: rev_map rev_take_rev)
  with k(1) k(3) k(4) show ?thesis unfolding sum_eq by blast
qed

text \<open>
  Claim C6.  For every history and every non-negative token budget, the formatter walks
  the history from the most recent turn to the oldest, renders each turn as
  \<^verbatim>\<open>{Role}: {content}\<close>, keeps turns while the running token total stays within the
  budget, and stops for good at the first turn that would exceed it: the result is the
  newline-joined rendering, in chronological order, of the last \<open>k\<close> turns, whose tokens
  fit the budget, and if a turn is left out then already the last \<open>k + 1\<close> turns do not
  fit.  An empty history gives the empty string, and so does a budget of 0 (every
  rendered turn has at least one token).
\<close>

theorem format_conversation_history_hard_stop:
  assumes "0 \<le> max_tokens"
  shows "(\<exists>k\<le>length history.
            format_conversation_history ct history max_tokens =
              py_join [CHR 0x0A] (map turn_text (drop (length history - k) history))
          \<and> turn_tokens_sum ct (drop (length history - k) history) \<le> max_tokens
          \<and> (k < length history \<longrightarrow>
               max_tokens < turn_tokens_sum ct (drop (length history - Suc k) history)))
       \<and> format_conversation_history ct [] max_tokens = []
       \<and> ((\<forall>t\<in>set history. 0 < ct (turn_text t)) \<and> max_tokens = 0 \<longrightarrow>
            format_conversation_history ct history max_tokens = [])"
proof (intro conjI impI)
  from formatted_history_drop[of history ct max_tokens]
  obtain k where k: "k \<le> length history"
    "rev (formatted_history ct history max_tokens) = map turn_text (drop (length history - k) history)"
    "0 < k \<longrightarrow> turn_tokens_sum ct (drop (length history - k) history) \<le> max_tokens"
    "k < length history \<longrightarrow> max_tokens < turn_tokens_sum ct (drop (length history - Suc k) history)"
    by blast
  have "turn_tokens_sum ct (drop (length history - k) history) \<le> max_tokens"
  proof (cases "0 < k")
    case True
    with k(3) show ?thesis by simp
  next
    case False
    with k(1) assms show ?thesis by (simp add: turn_tokens_sum_def)
  qed
  with k show "\<exists>k\<le>length history.
            format_conversation_history ct history max_tokens =
              py_join [CHR 0x0A] (map turn_text (drop (length history - k) history))
          \<and> turn_tokens_sum ct (drop (length history - k) history) \<le> max_tokens
          \<and> (k < length history \<longrightarrow>
               max_tokens < turn_tokens_sum ct (drop (length history - Suc k) history))"
    unfolding format_conversation_history_def by auto
next
  show "format_conversation_history ct [] max_tokens = []"
    by (simp add: format_conversation_history_def formatted_history_def)
next
  assume a: "(\<forall>t\<in>set history. 0 < ct (turn_text t)) \<and> max_tokens = 0"
  have "formatted_history ct history max_tokens = []"
  proof (cases "rev history")
    case Nil
    then show ?thesis by (simp add: formatted_history_def)
  next
    case (Cons t ts)
    then have "t \<in> set history" by (metis list.set_intros(1) set_rev)
    with a have "0 < ct (turn_text t)" by blast
    with a Cons show ?thesis by (simp add: formatted_history_def Let_def)
  qed
  then show "format_conversation_history ct history max_tokens = []"
    by (simp add: format_conversation_history_def)
qed

text \<open>
  Claim C7.  For every history and all budgets \<open>b1 < b2\<close>, the turns included under
  \<open>b1\<close> are a chronological suffix of the turns included under \<open>b2\<close>: a larger
  budget never removes a turn, it can only add older ones.  The same holds for the
  formatted strings.
\<close>

theorem format_conversation_history_budget_monotone:
  assumes "b1 < b2"
  shows "suffix (rev (formatted_history ct history b1)) (rev (formatted_history ct history b2))
       \<and> (\<exists>k1 k2. k1 \<le> k2 \<and> k2 \<le> length history
            \<and> rev (formatted_history ct history b1) = map turn_text (drop (length history - k1) history)
            \<and> rev (formatted_history ct history b2) = map turn_text (drop (length history - k2) history))
       \<and> suffix (format_conversation_history ct history b1) (format_conversation_history ct history b2)"
proof -
  from assms have "prefix (formatted_history ct history b1) (formatted_history ct history b2)"
    unfolding formatted_history_def by (intro history_loop_mono) simp
  then have suf: "suffix (rev (formatted_history ct history b1)) (rev (formatted_history ct history b2))"
    by (simp add: suffix_to_prefix)
  from formatted_history_drop[of history ct b1] obtain k1 where k1: "k1 \<le> length history"
    "rev (formatted_history ct history b1) = map turn_text (drop (length history - k1) history)"
    by blast
  from formatted_history_drop[of history ct b2] obtain k2 where k2: "k2 \<le> length history"
    "rev (formatted_history ct history b2) = map turn_text (drop (length history - k2) history)"
    by blast
  from suf have "length (rev (formatted_history ct history b1)) \<le> length (rev (formatted_history ct history b2))"
    by (rule suffix_length_le)
  with k1 k2 have "k1 \<le> k2" by simp
  with k1 k2 suf py_join_suffix[OF suf, of "[CHR 0x0A]"] show ?thesis
    unfolding format_conversation_history_def by blast
qed


theorem format_conversation_history_hard_stop_witness:
  "(0::int) \<le> 12
   \<and> format_conversation_history length
        [\<lparr>role = ''user'', content = ''hi''\<rparr>, \<lparr>role = ''ai'', content = ''hello''\<rparr>] 12 = ''Ai: hello''
   \<and> format_conversation_history length
        [\<lparr>role = ''user'', content = ''hi''\<rparr>, \<lparr>role = ''ai'', content = ''hello''\<rparr>] 0 = []"
proof -
  let ?H = "[\<lparr>role = ''user'', content = ''hi''\<rparr>, \<lparr>role = ''ai'', content = ''hello''\<rparr>]"
  have h: "(0::int) \<le> 12" by simp
  have t1: "turn_text \<lparr>role = ''user'', content = ''hi''\<rparr> = ''User: hi''" by code_simp
  have t2: "turn_text \<lparr>role = ''ai'', content = ''hello''\<rparr> = ''Ai: hello''" by code_simp
  from format_conversation_history_hard_stop[OF h, of ?H length]
  obtain k where k: "k \<le> length ?H"
    "format_conversation_history length ?H 12 = py_join [CHR 0x0A] (map turn_text (drop (length ?H - k) ?H))"
    "turn_tokens_sum length (drop (length ?H - k) ?H) \<le> 12"
    "k < length ?H \<longrightarrow> 12 < turn_tokens_sum length (drop (length ?H - Suc k) ?H)"
    by blast
  from k(1) have "k = 0 \<or> k = 1 \<or> k = 2" by auto
  with k(3) k(4) have "k = 1"
    by (auto simp: turn_tokens_sum_def t1 t2)
  with k(2) have a: "format_conversation_history length ?H 12 = ''Ai: hello''"
    by (simp add: t2)
  have h0: "(0::int) \<le> 0" by simp
  have "\<forall>t\<in>set ?H. 0 < length (turn_text t)" by (simp add: turn_text_def)
  with format_conversation_history_hard_stop[OF h0, of ?H length]
  have b: "format_conversation_history length ?H 0 = []" by blast
  from h a b show ?thesis by blast
qed

theorem format_conversation_history_budget_monotone_witness:
  "(12::int) < 20
   \<and> suffix (format_conversation_history length
        [\<lparr>role = ''user'', content = ''hi''\<rparr>, \<lparr>role = ''ai'', content = ''hello''\<rparr>] 12)
      (format_conversation_history length
        [\<lparr>role = ''user'', content = ''hi''\<rparr>, \<lparr>role = ''ai'', content = ''hello''\<rparr>] 20)"
proof -
  have h: "(12::int) < 20" by simp
  from format_conversation_history_budget_monotone[OF h] h show ?thesis by blast
qed

section \<open>The stages and the routing\<close>

lemmas io_defs = ok_def raise_def and_then_def except_def log_call_def

text \<open>
  Claim C4.  For every turn state with \<open>needs_escalation\<close> true and \<open>error\<close> unset
  (\<^verbatim>\<open>None\<close> or empty), the generation stage sets \<open>generated_response\<close> to the fixed
  escalation message and changes nothing else: the world is returned as it was, so no
  call to the generation backend is logged and no entry is added to memory.
\<close>

theorem generate_response_escalation_short_circuit:
  assumes "\<not> truthy_str (error state)" and "needs_escalation state"
  shows "generate_response_node env state w =
           (Inr (state\<lparr>generated_response := Some ESCALATION_MESSAGE\<rparr>), w)"
  using assms by (simp add: generate_response_node_def ok_def)

lemma ethical_check_node_cases:
  "ethical_check_node env state w =
     (if truthy_str (error state) then (Inr (state\<lparr>needs_escalation := False\<rparr>), w)
      else case chain_invoke env ETHICAL_RISK_ASSESSMENT_PROMPT (ethical_inputs env state) of
             Some assessment \<Rightarrow>
               (Inr (state\<lparr>needs_escalation :=
                  (py_upper (py_strip assessment) = ''YES''
                   \<or> simple_keyword_check (user_input state) POTENTIAL_RISK_KEYWORDS)\<rparr>),
                w\<lparr>calls := calls w @ [LLMCall ETHICAL_RISK_ASSESSMENT_PROMPT]\<rparr>)
           | None \<Rightarrow>
               (Inr (state\<lparr>error := Some (or_empty (error state) @ '' Ethical check LLM failed.''),
                          needs_escalation :=
                            simple_keyword_check (user_input state) POTENTIAL_RISK_KEYWORDS\<rparr>),
                w\<lparr>calls := calls w @ [LLMCall ETHICAL_RISK_ASSESSMENT_PROMPT]\<rparr>))"
  by (simp add: ethical_check_node_def io_defs Let_def split: option.splits)

text \<open>
  Claim C3, as amended.  For every turn state whose \<open>error\<close> is unset on entering the
  safety stage and whose user input matches the keyword check, the safety stage sets
  \<open>needs_escalation\<close> to true, for every collaborator \<open>env\<close>: whatever the risk
  assessment answers, and also when its call fails.
\<close>

theorem ethical_check_lexical_positive_stands:
  assumes "\<not> truthy_str (error state)"
    and "simple_keyword_check (user_input state) POTENTIAL_RISK_KEYWORDS"
  shows "\<exists>s' w'. ethical_check_node env state w = (Inr s', w') \<and> needs_escalation s'"
  using assms by (simp add: ethical_check_node_cases split: option.splits)

lemma or_empty_falsy: "\<not> truthy_str x \<Longrightarrow> or_empty x = []"
  by (auto simp: truthy_str_def or_empty_def split: option.splits)

lemma process_input_node_cases:
  "process_input_node env state w =
     (Inr (case chain_invoke env INPUT_ANALYSIS_PROMPT (analysis_inputs env state) of
             None \<Rightarrow> state\<lparr>error := Some ''An error occurred during input analysis.'',
                          input_analysis := Some (JDict [(''error'', JStr ''LLM call failed'')])\<rparr>
           | Some analysis_str \<Rightarrow>
               (case json_loads env (clean_analysis analysis_str) of
                  None \<Rightarrow> state\<lparr>error := Some ''Failed to analyze input.'',
                               input_analysis := Some (JDict [(''error'', JStr ''JSON parsing failed'')])\<rparr>
                | Some analysis_json \<Rightarrow> state\<lparr>input_analysis := Some analysis_json\<rparr>)),
      w\<lparr>calls := calls w @ [LLMCall INPUT_ANALYSIS_PROMPT]\<rparr>)"
  by (simp add: process_input_node_def io_defs split: option.splits)


lemma hopeless_hit:
  "simple_keyword_check ''I feel hopeless and can't go on'' POTENTIAL_RISK_KEYWORDS"
  by code_simp

text \<open>The escalation branch on the turn \<^verbatim>\<open>I feel hopeless and can't go on\<close>.\<close>

theorem generate_response_escalation_short_circuit_witness:
  "generate_response_node healthy_env
     ((current_state ''s1'' ''I feel hopeless and can't go on'' [])\<lparr>needs_escalation := True\<rparr>)
     startup_world
   = (Inr ((current_state ''s1'' ''I feel hopeless and can't go on'' [])
             \<lparr>needs_escalation := True, generated_response := Some ESCALATION_MESSAGE\<rparr>),
      startup_world)"
  using generate_response_escalation_short_circuit
    [of "(current_state ''s1'' ''I feel hopeless and can't go on'' [])\<lparr>needs_escalation := True\<rparr>"
        healthy_env startup_world]
  by (simp add: current_state_def truthy_str_def)

text \<open>
  Claim C3 as stated fails when \<open>error\<close> is already set: the stage is skipped and
  \<open>needs_escalation\<close> is set to false although the keyword check matches.
\<close>

theorem ethical_check_skipped_counterexample:
  "simple_keyword_check ''I feel hopeless and can't go on'' POTENTIAL_RISK_KEYWORDS
   \<and> ethical_check_node healthy_env
        ((current_state ''s1'' ''I feel hopeless and can't go on'' [])\<lparr>error := Some ''A''\<rparr>)
        startup_world
     = (Inr ((current_state ''s1'' ''I feel hopeless and can't go on'' [])
               \<lparr>error := Some ''A'', needs_escalation := False\<rparr>),
        startup_world)"
  by (simp add: hopeless_hit ethical_check_node_cases current_state_def truthy_str_def)

text \<open>A keyword hit with the assessment answering \<^verbatim>\<open>NO\<close>, and with the assessment failing.\<close>

theorem ethical_check_lexical_positive_stands_witness:
  "\<not> truthy_str (error (current_state ''s1'' ''I feel hopeless and can't go on'' [] :: rat agent_state))
   \<and> simple_keyword_check
        (user_input (current_state ''s1'' ''I feel hopeless and can't go on'' [] :: rat agent_state))
        POTENTIAL_RISK_KEYWORDS
   \<and> (\<exists>s' w'. ethical_check_node healthy_env
                  (current_state ''s1'' ''I feel hopeless and can't go on'' []) startup_world = (Inr s', w')
               \<and> needs_escalation s')
   \<and> (\<exists>s' w'. ethical_check_node assessment_down_env
                  (current_state ''s1'' ''I feel hopeless and can't go on'' []) startup_world = (Inr s', w')
               \<and> needs_escalation s')"
proof -
  let ?s = "current_state ''s1'' ''I feel hopeless and can't go on'' [] :: rat agent_state"
  have h1: "\<not> truthy_str (error ?s)" by (simp add: current_state_def truthy_str_def)
  have h2: "simple_keyword_check (user_input ?s) POTENTIAL_RISK_KEYWORDS"
    by (simp add: current_state_def hopeless_hit)
  from h1 h2 ethical_check_lexical_positive_stands[OF h1 h2, of healthy_env startup_world]
    ethical_check_lexical_positive_stands[OF h1 h2, of assessment_down_env startup_world]
  show ?thesis by blast
qed


lemma retrieve_memory_node_result:
  assumes "retrieve_memory_node env s w = (Inr s', w')"
  shows "generated_response s' = generated_response s"
    and "user_input s' = user_input s"
    and "needs_escalation s' = needs_escalation s"
    and "truthy_str (error s') \<Longrightarrow> retrieved_memories s' = Some []"
    and "truthy_str (error s) \<Longrightarrow> s' = s\<lparr>retrieved_memories := Some []\<rparr> \<and> w' = w"
    and "error s' = error s
         \<or> error s' = Some (or_empty (error s) @ ''Failed to retrieve memories.'')"
  using assms
  by (auto simp: retrieve_memory_node_def io_defs or_empty_falsy
           split: if_splits option.splits json.splits prod.splits sum.splits)

lemma ethical_check_node_result:
  assumes "ethical_check_node env s w = (r, w')"
  shows "\<exists>s'. r = Inr s' \<and> generated_response s' = generated_response s
            \<and> retrieved_memories s' = retrieved_memories s
            \<and> (truthy_str (error s) \<longrightarrow> s' = s\<lparr>needs_escalation := False\<rparr> \<and> w' = w)
            \<and> (error s' = error s
                \<or> error s' = Some (or_empty (error s) @ '' Ethical check LLM failed.''))"
  using assms
  by (auto simp: ethical_check_node_cases split: if_splits option.splits)

lemma process_input_node_result:
  assumes "process_input_node env s w = (r, w')"
  shows "\<exists>s'. r = Inr s' \<and> generated_response s' = generated_response s
            \<and> user_input s' = user_input s
            \<and> (error s' = error s
                \<or> error s' = Some ''An error occurred during input analysis.''
                \<or> error s' = Some ''Failed to analyze input.'')"
  using assms
  by (auto simp: process_input_node_cases split: option.splits)

lemma should_continue_error: "truthy_str (error s) \<Longrightarrow> should_continue s = ''end''"
  by (simp add: should_continue_def)

lemma conditional_edges_end: "conditional_edges ''end'' = Some END"
  by (simp add: conditional_edges_def)

lemma invoke_error_route:
  assumes "process_input_node env st w = (Inr s1, w1)"
    and "retrieve_memory_node env s1 w1 = (Inr s2, w2)"
    and "ethical_check_node env s2 w2 = (Inr s3, w3)"
    and "truthy_str (error s3)"
  shows "soulstice_app_invoke env st w = (Inr s3, w3)"
  using assms
  by (simp add: soulstice_app_invoke_def and_then_def ok_def should_continue_error conditional_edges_end)


text \<open>
  Whenever \<open>error\<close> is set when the routing after the safety stage is decided,
  \<open>should_continue\<close> answers \<^verbatim>\<open>end\<close>, the graph maps it to \<open>END\<close>, and the turn
  ends with the state after the safety stage.  The generation stage is not run, so the
  apology that \<open>generate_response_node\<close> writes on an error is never reached.
\<close>

lemma error_before_routing_ends_turn:
  assumes p: "process_input_node env st w = (Inr s1, w1)"
    and r: "retrieve_memory_node env s1 w1 = (Inr s2, w2)"
    and e: "ethical_check_node env s2 w2 = (Inr s3, w3)"
    and err: "truthy_str (error s3)"
  shows "should_continue s3 = ''end''
       \<and> conditional_edges (should_continue s3) = Some END
       \<and> soulstice_app_invoke env st w = (Inr s3, w3)
       \<and> generated_response s3 = generated_response st
       \<and> (truthy_str (error s2) \<longrightarrow>
            retrieved_memories s3 = Some [] \<and> needs_escalation s3 = False \<and> w3 = w2)"
proof -
  from process_input_node_result[OF p] have g1: "generated_response s1 = generated_response st"
    by auto
  from ethical_check_node_result[OF e]
  have g3: "generated_response s3 = generated_response s2"
    and m3: "retrieved_memories s3 = retrieved_memories s2"
    and skip: "truthy_str (error s2) \<longrightarrow> s3 = s2\<lparr>needs_escalation := False\<rparr> \<and> w3 = w2"
    by auto
  have "truthy_str (error s2) \<longrightarrow>
          retrieved_memories s3 = Some [] \<and> needs_escalation s3 = False \<and> w3 = w2"
    using skip m3 retrieve_memory_node_result(4)[OF r] by auto
  then show ?thesis
    using should_continue_error[OF err] conditional_edges_end invoke_error_route[OF p r e err]
      g1 g3 retrieve_memory_node_result(1)[OF r]
    by simp
qed

text \<open>
  Claim C1.  For every turn in which \<open>error\<close> is set before the routing after the
  safety stage, the final \<open>generated_response\<close> should be the fixed apology, with
  \<open>retrieved_memories\<close> empty and \<open>needs_escalation\<close> false.  The code misses the
  first part.  On the turn \<^verbatim>\<open>had a rough day at work\<close> with the analysis backend down,
  \<open>retrieved_memories\<close> is empty and \<open>needs_escalation\<close> is false, but the turn is
  routed to \<open>END\<close> and the final \<open>generated_response\<close> is absent, although
  \<open>generate_response_node\<close>, run on that final state, writes the apology.
\<close>

theorem analysis_failure_leaves_no_response:
  "soulstice_app_invoke analysis_down_env
     (current_state ''s1'' ''had a rough day at work'' []) startup_world
   = (Inr \<lparr>session_id = ''s1'', user_input = ''had a rough day at work'',
            input_analysis = Some (JDict [(''error'', JStr ''LLM call failed'')]),
            retrieved_memories = Some [], conversation_history = [],
            response_strategy = None, generated_response = None,
            needs_escalation = False,
            error = Some ''An error occurred during input analysis.''\<rparr>,
      startup_world\<lparr>calls := [LLMCall INPUT_ANALYSIS_PROMPT]\<rparr>)
   \<and> generate_response_node analysis_down_env
        \<lparr>session_id = ''s1'', user_input = ''had a rough day at work'',
         input_analysis = Some (JDict [(''error'', JStr ''LLM call failed'')]),
         retrieved_memories = Some [], conversation_history = [],
         response_strategy = None, generated_response = None,
         needs_escalation = False,
         error = Some ''An error occurred during input analysis.''\<rparr>
        (startup_world\<lparr>calls := [LLMCall INPUT_ANALYSIS_PROMPT]\<rparr>)
     = (Inr \<lparr>session_id = ''s1'', user_input = ''had a rough day at work'',
              input_analysis = Some (JDict [(''error'', JStr ''LLM call failed'')]),
              retrieved_memories = Some [], conversation_history = [],
              response_strategy = None,
              generated_response =
                Some ''I'm sorry, I encountered an error. Could you please rephrase?'',
              needs_escalation = False,
              error = Some ''An error occurred during input analysis.''\<rparr>,
        startup_world\<lparr>calls := [LLMCall INPUT_ANALYSIS_PROMPT]\<rparr>)"
  by code_simp

text \<open>The same turn with an analysis that does not parse.\<close>

lemma error_before_routing_ends_turn_example:
  "soulstice_app_invoke unparsable_analysis_env
     (current_state ''s1'' ''had a rough day at work'' []) startup_world
   = (Inr ((current_state ''s1'' ''had a rough day at work'' [])
             \<lparr>input_analysis := Some (JDict [(''error'', JStr ''JSON parsing failed'')]),
              retrieved_memories := Some [],
              error := Some ''Failed to analyze input.''\<rparr>),
      startup_world\<lparr>calls := [LLMCall INPUT_ANALYSIS_PROMPT]\<rparr>)
   \<and> generated_response
        ((current_state ''s1'' ''had a rough day at work'' [] :: rat agent_state)
           \<lparr>input_analysis := Some (JDict [(''error'', JStr ''JSON parsing failed'')]),
            retrieved_memories := Some [],
            error := Some ''Failed to analyze input.''\<rparr>) = None"
proof -
  let ?st = "current_state ''s1'' ''had a rough day at work'' [] :: rat agent_state"
  let ?s1 = "?st\<lparr>input_analysis := Some (JDict [(''error'', JStr ''JSON parsing failed'')]),
                 error := Some ''Failed to analyze input.''\<rparr>"
  let ?s2 = "?s1\<lparr>retrieved_memories := Some []\<rparr>"
  let ?w1 = "startup_world\<lparr>calls := [LLMCall INPUT_ANALYSIS_PROMPT]\<rparr>"
  have p: "process_input_node unparsable_analysis_env ?st startup_world = (Inr ?s1, ?w1)"
    by code_simp
  have r: "retrieve_memory_node unparsable_analysis_env ?s1 ?w1 = (Inr ?s2, ?w1)"
    by code_simp
  have e: "ethical_check_node unparsable_analysis_env ?s2 ?w1 = (Inr ?s2, ?w1)"
    by code_simp
  have err: "truthy_str (error ?s2)"
    by (simp add: truthy_str_def)
  from error_before_routing_ends_turn[OF p r e err] show ?thesis
    by (simp add: current_state_def)
qed

text \<open>
  Claim C5.  When the state entering the safety stage has no error, the keyword check
  matches and the risk assessment call raises, the safety stage leaves
  \<open>needs_escalation\<close> true and \<open>error\<close> set, \<open>should_continue\<close> routes the turn to
  \<open>END\<close>, and the final \<open>generated_response\<close> is what the caller passed in: the
  escalation message is not emitted.  The witness below is such a turn.
\<close>

theorem lexical_hit_with_failed_assessment_ends_unanswered:
  assumes p: "process_input_node env st w = (Inr s1, w1)"
    and r: "retrieve_memory_node env s1 w1 = (Inr s2, w2)"
    and no_err: "\<not> truthy_str (error s2)"
    and hit: "simple_keyword_check (user_input s2) POTENTIAL_RISK_KEYWORDS"
    and down: "chain_invoke env ETHICAL_RISK_ASSESSMENT_PROMPT (ethical_inputs env s2) = None"
  shows "\<exists>s3 w3. ethical_check_node env s2 w2 = (Inr s3, w3)
           \<and> needs_escalation s3
           \<and> error s3 = Some '' Ethical check LLM failed.''
           \<and> should_continue s3 = ''end''
           \<and> conditional_edges (should_continue s3) = Some END
           \<and> soulstice_app_invoke env st w = (Inr s3, w3)
           \<and> generated_response s3 = generated_response st"
proof -
  let ?s3 = "s2\<lparr>error := Some '' Ethical check LLM failed.'', needs_escalation := True\<rparr>"
  let ?w3 = "w2\<lparr>calls := calls w2 @ [LLMCall ETHICAL_RISK_ASSESSMENT_PROMPT]\<rparr>"
  have e: "ethical_check_node env s2 w2 = (Inr ?s3, ?w3)"
    using no_err hit down by (simp add: ethical_check_node_cases or_empty_falsy)
  have err: "truthy_str (error ?s3)" by (simp add: truthy_str_def)
  from process_input_node_result[OF p] retrieve_memory_node_result(1)[OF r]
  have g: "generated_response ?s3 = generated_response st" by auto
  from should_continue_error[OF err] conditional_edges_end invoke_error_route[OF p r e err] e g
  show ?thesis by (intro exI[of _ ?s3] exI[of _ ?w3]) simp
qed


text \<open>
  The turn \<^verbatim>\<open>I feel hopeless and can't go on\<close> with the assessment backend down ends
  with \<open>needs_escalation\<close> true, \<open>error\<close> set and no response.
\<close>

theorem lexical_hit_with_failed_assessment_ends_unanswered_witness:
  "soulstice_app_invoke assessment_down_env
     (current_state ''s1'' ''I feel hopeless and can't go on'' []) startup_world
   = (Inr \<lparr>session_id = ''s1'', user_input = ''I feel hopeless and can't go on'',
            input_analysis = Some (JDict [(''dominant_emotion'', JStr ''sadness''),
                                          (''key_topics'', JList [JStr ''work''])]),
            retrieved_memories = Some [], conversation_history = [],
            response_strategy = None, generated_response = None,
            needs_escalation = True,
            error = Some '' Ethical check LLM failed.''\<rparr>,
      startup_world\<lparr>model_loaded := True,
        calls := [LLMCall INPUT_ANALYSIS_PROMPT, LLMCall MEMORY_RETRIEVAL_QUERY_PROMPT,
                  EncodeCall ''rough day at work'', QueryCall 5 None,
                  LLMCall ETHICAL_RISK_ASSESSMENT_PROMPT]\<rparr>)"
proof -
  let ?st = "current_state ''s1'' ''I feel hopeless and can't go on'' [] :: rat agent_state"
  let ?s1 = "?st\<lparr>input_analysis := Some (JDict [(''dominant_emotion'', JStr ''sadness''),
                                                  (''key_topics'', JList [JStr ''work''])])\<rparr>"
  let ?s2 = "?s1\<lparr>retrieved_memories := Some []\<rparr>"
  let ?w1 = "startup_world\<lparr>calls := [LLMCall INPUT_ANALYSIS_PROMPT]\<rparr>"
  let ?w2 = "startup_world\<lparr>model_loaded := True,
               calls := [LLMCall INPUT_ANALYSIS_PROMPT, LLMCall MEMORY_RETRIEVAL_QUERY_PROMPT,
                         EncodeCall ''rough day at work'', QueryCall 5 None]\<rparr>"
  have p: "process_input_node assessment_down_env ?st startup_world = (Inr ?s1, ?w1)"
    by code_simp
  have r: "retrieve_memory_node assessment_down_env ?s1 ?w1 = (Inr ?s2, ?w2)"
    by code_simp
  have no_err: "\<not> truthy_str (error ?s2)"
    by (simp add: truthy_str_def current_state_def)
  have hit: "simple_keyword_check (user_input ?s2) POTENTIAL_RISK_KEYWORDS"
    by (simp add: current_state_def hopeless_hit)
  have down: "chain_invoke assessment_down_env ETHICAL_RISK_ASSESSMENT_PROMPT
                (ethical_inputs assessment_down_env ?s2) = None"
    by (simp add: assessment_down_env_def)
  from lexical_hit_with_failed_assessment_ends_unanswered[OF p r no_err hit down]
  obtain s3 w3 where e: "ethical_check_node assessment_down_env ?s2 ?w2 = (Inr s3, w3)"
    and run: "soulstice_app_invoke assessment_down_env ?st startup_world = (Inr s3, w3)"
    by blast
  have "ethical_check_node assessment_down_env ?s2 ?w2
        = (Inr (?s2\<lparr>error := Some '' Ethical check LLM failed.'', needs_escalation := True\<rparr>),
           ?w2\<lparr>calls := calls ?w2 @ [LLMCall ETHICAL_RISK_ASSESSMENT_PROMPT]\<rparr>)"
    by code_simp
  with e run show ?thesis by (simp add: current_state_def startup_world_def)
qed

lemma generate_response_node_result:
  assumes "generate_response_node env s w = (r, w')"
  shows "\<exists>s'. r = Inr s'
            \<and> (truthy_str (error s) \<longrightarrow> error s' = error s)
            \<and> (error s' = error s
                \<or> error s' = Some (or_empty (error s) @ '' Failed to save interaction to memory.'')
                \<or> error s' = Some (or_empty (error s) @ '' Failed to generate response.''))"
  using assms
  by (auto simp: generate_response_node_def io_defs Let_def
           split: if_splits option.splits prod.splits sum.splits)




section \<open>The memory subsystem\<close>

lemma py_strip_Nil_iff: "py_strip s = [] \<longleftrightarrow> (\<forall>c\<in>set s. py_isspace c)"
proof
  assume "py_strip s = []"
  then have a: "\<forall>c\<in>set (dropWhile py_isspace s). py_isspace c"
    by (simp add: py_strip_def)
  have "dropWhile py_isspace s = []"
  proof (rule ccontr)
    assume n: "dropWhile py_isspace s \<noteq> []"
    then have "\<not> py_isspace (hd (dropWhile py_isspace s))" by (rule hd_dropWhile)
    moreover from n have "hd (dropWhile py_isspace s) \<in> set (dropWhile py_isspace s)" by simp
    ultimately show False using a by blast
  qed
  then show "\<forall>c\<in>set s. py_isspace c" by simp
next
  assume "\<forall>c\<in>set s. py_isspace c"
  then have d: "dropWhile py_isspace s = []" by simp
  show "py_strip s = []" unfolding py_strip_def d by simp
qed

lemma user_doc_not_blank: "py_strip (''User said: '' @ u) \<noteq> []"
proof -
  have "\<not> py_isspace CHR ''U''" by code_simp
  then show ?thesis by (auto simp: py_strip_Nil_iff)
qed

lemma ai_doc_not_blank: "py_strip (''AI responded: '' @ a) \<noteq> []"
proof -
  have "\<not> py_isspace CHR ''A''" by code_simp
  then show ?thesis by (auto simp: py_strip_Nil_iff)
qed

lemma get_embedding_available:
  assumes "model_loaded w \<or> load_model env"
  shows "get_embedding env text w =
           (if py_strip text = [] then (Inr None, w\<lparr>model_loaded := True\<rparr>)
            else (Inr (encode env text),
                  w\<lparr>model_loaded := True, calls := calls w @ [EncodeCall text]\<rparr>))"
  using assms
  by (cases w) (auto simp: get_embedding_def get_embedding_model_def io_defs)

lemma get_embedding_unavailable:
  assumes "\<not> model_loaded w" and "\<not> load_model env"
  shows "get_embedding env text w = (Inl ModelLoadError, w)"
  using assms by (simp add: get_embedding_def get_embedding_model_def io_defs)

lemma add_memory_available:
  assumes "collection_open w \<or> open_collection env"
  shows "add_memory env (Some v) doc meta w =
           (Inr (),
            if collection_add env (entries w)
                 \<lparr>memory_id = uuid4 env (uuid_count w), embedding = v,
                  stored_document = doc, stored_metadata = meta\<rparr>
            then w\<lparr>collection_open := True, uuid_count := Suc (uuid_count w),
                   calls := calls w @ [AddCall doc meta],
                   entries := entries w @
                     [\<lparr>memory_id = uuid4 env (uuid_count w), embedding = v,
                       stored_document = doc, stored_metadata = meta\<rparr>]\<rparr>
            else w\<lparr>collection_open := True, uuid_count := Suc (uuid_count w),
                   calls := calls w @ [AddCall doc meta]\<rparr>)"
  using assms
  by (cases w) (auto simp: add_memory_def get_chroma_collection_def io_defs Let_def)


lemma retrieve_relevant_memories_calls:
  assumes "retrieve_relevant_memories env q sid n w = (r, w')"
  shows "\<exists>cs. calls w' = calls w @ cs \<and> set cs \<subseteq> {EncodeCall q, QueryCall n None}
            \<and> entries w' = entries w"
  using assms
  by (auto simp: retrieve_relevant_memories_def get_embedding_def get_embedding_model_def
        query_memories_def get_chroma_collection_def io_defs Let_def
        split: if_splits option.splits prod.splits sum.splits)

text \<open>
  Claim C10.  For every query text, store contents, limit and any two session
  identifiers, \<open>retrieve_relevant_memories\<close> returns the same result and leaves the same
  world: the session identifier has no effect, and every query the call sends to the
  collection carries no filter (\<open>None\<close>).
\<close>

theorem retrieve_relevant_memories_ignores_session:
  "retrieve_relevant_memories env q s1 n w = retrieve_relevant_memories env q s2 n w
   \<and> (\<forall>k f. QueryCall k f \<in> set (calls (snd (retrieve_relevant_memories env q s1 n w))) \<longrightarrow>
         QueryCall k f \<in> set (calls w) \<or> (k = n \<and> f = None))"
proof -
  obtain r w' where rw: "retrieve_relevant_memories env q s1 n w = (r, w')"
    by (cases "retrieve_relevant_memories env q s1 n w")
  from retrieve_relevant_memories_calls[OF rw]
  obtain cs where "calls w' = calls w @ cs" "set cs \<subseteq> {EncodeCall q, QueryCall n None}"
    by blast
  then have "\<forall>k f. QueryCall k f \<in> set (calls w') \<longrightarrow>
         QueryCall k f \<in> set (calls w) \<or> (k = n \<and> f = None)"
    by auto
  then have logged: "\<forall>k f. QueryCall k f
          \<in> set (calls (snd (retrieve_relevant_memories env q s1 n w))) \<longrightarrow>
         QueryCall k f \<in> set (calls w) \<or> (k = n \<and> f = None)"
    unfolding rw snd_conv .
  have same: "retrieve_relevant_memories env q s1 n w = retrieve_relevant_memories env q s2 n w"
    by (simp add: retrieve_relevant_memories_def)
  from same logged show ?thesis by (rule conjI)
qed

text \<open>
  Claim C8, as amended.  With the embedding model loaded or loadable, for every query
  text that is blank or on which the encoder fails, \<open>get_embedding\<close> returns
  \<^verbatim>\<open>None\<close>, \<open>retrieve_relevant_memories\<close> returns the empty list without raising, and
  the retrieval stage stores the empty list and leaves \<open>error\<close> as it was.  When the
  embedding model cannot be loaded, the load failure is raised through
  \<open>retrieve_relevant_memories\<close> and the retrieval stage records it in \<open>error\<close>.
\<close>

theorem retrieve_without_embedding_is_empty:
  "((model_loaded w \<or> load_model env) \<and> (py_strip q = [] \<or> encode env q = None) \<longrightarrow>
      (\<exists>w'. retrieve_relevant_memories env q sid n w = (Inr [], w') \<and> entries w' = entries w)
      \<and> (\<not> truthy_str (error state) \<and> input_analysis state = Some (JDict a) \<and> a \<noteq> []
           \<and> \<not> truthy (dict_get a ''error'' JNull) \<and> query_text env state a = q \<longrightarrow>
          (\<exists>w'. retrieve_memory_node env state w
                  = (Inr (state\<lparr>retrieved_memories := Some []\<rparr>), w'))))
   \<and> (\<not> model_loaded w \<and> \<not> load_model env \<longrightarrow>
        retrieve_relevant_memories env q sid n w = (Inl ModelLoadError, w)
        \<and> (\<not> truthy_str (error state) \<and> input_analysis state = Some (JDict a) \<and> a \<noteq> []
             \<and> \<not> truthy (dict_get a ''error'' JNull) \<longrightarrow>
            retrieve_memory_node env state w
              = (Inr (state\<lparr>error := Some ''Failed to retrieve memories.'',
                            retrieved_memories := Some []\<rparr>),
                 w\<lparr>calls := calls w @ [LLMCall MEMORY_RETRIEVAL_QUERY_PROMPT]\<rparr>)))"
proof (intro conjI impI)
  assume h: "(model_loaded w \<or> load_model env) \<and> (py_strip q = [] \<or> encode env q = None)"
  have r: "\<exists>w'. retrieve_relevant_memories env q sid' k w0 = (Inr [], w') \<and> entries w' = entries w0"
    if "model_loaded w0 \<or> load_model env" for w0 :: "'a world" and sid' k
    using that h by (auto simp: retrieve_relevant_memories_def get_embedding_available io_defs)
  from h r[of w sid n]
  show "\<exists>w'. retrieve_relevant_memories env q sid n w = (Inr [], w') \<and> entries w' = entries w"
    by blast
  assume st: "\<not> truthy_str (error state) \<and> input_analysis state = Some (JDict a) \<and> a \<noteq> []
           \<and> \<not> truthy (dict_get a ''error'' JNull) \<and> query_text env state a = q"
  let ?w1 = "w\<lparr>calls := calls w @ [LLMCall MEMORY_RETRIEVAL_QUERY_PROMPT]\<rparr>"
  from h have "model_loaded ?w1 \<or> load_model env" by simp
  from r[OF this, of "session_id state" 5] obtain w' where
    "retrieve_relevant_memories env q (session_id state) 5 ?w1 = (Inr [], w')"
    by blast
  with st
  show "\<exists>w'. retrieve_memory_node env state w = (Inr (state\<lparr>retrieved_memories := Some []\<rparr>), w')"
    by (simp add: retrieve_memory_node_def io_defs)
next
  assume h: "\<not> model_loaded w \<and> \<not> load_model env"
  then show "retrieve_relevant_memories env q sid n w = (Inl ModelLoadError, w)"
    by (simp add: retrieve_relevant_memories_def get_embedding_unavailable io_defs)
  assume st: "\<not> truthy_str (error state) \<and> input_analysis state = Some (JDict a) \<and> a \<noteq> []
             \<and> \<not> truthy (dict_get a ''error'' JNull)"
  with h show "retrieve_memory_node env state w
              = (Inr (state\<lparr>error := Some ''Failed to retrieve memories.'',
                            retrieved_memories := Some []\<rparr>),
                 w\<lparr>calls := calls w @ [LLMCall MEMORY_RETRIEVAL_QUERY_PROMPT]\<rparr>)"
    by (simp add: retrieve_memory_node_def retrieve_relevant_memories_def
          get_embedding_unavailable io_defs)
qed


lemma generate_response_node_total:
  "\<exists>s' w'. generate_response_node env state w = (Inr s', w')"
  using generate_response_node_result[of env state w]
  by (cases "generate_response_node env state w") auto

lemma add_interaction_sides:
  "add_interaction env u a sid w =
     (case and_then (get_embedding env (''User said: '' @ u))
             (\<lambda>emb. if truthy_embedding emb
                    then add_memory env emb (''User said: '' @ u)
                           (interaction_metadata ''user'' (utcnow_isoformat env (clock w)) sid)
                    else ok ())
             (w\<lparr>clock := Suc (clock w)\<rparr>) of
        (Inl e, w1) \<Rightarrow> (Inl e, w1)
      | (Inr _, w1) \<Rightarrow>
          and_then (get_embedding env (''AI responded: '' @ a))
            (\<lambda>emb. if truthy_embedding emb
                   then add_memory env emb (''AI responded: '' @ a)
                          (interaction_metadata ''ai'' (utcnow_isoformat env (clock w)) sid)
                   else ok ())
            w1)"
  by (simp add: add_interaction_def now_isoformat_def and_then_def Let_def
        split: prod.splits sum.splits)

lemma side_step:
  assumes "model_loaded w \<or> load_model env"
    and "collection_open w \<or> open_collection env"
    and "py_strip doc \<noteq> []"
  shows "\<exists>w'. and_then (get_embedding env doc)
                (\<lambda>emb. if truthy_embedding emb then add_memory env emb doc meta else ok ()) w
              = (Inr (), w')
           \<and> model_loaded w' \<and> (collection_open w' \<or> open_collection env)
           \<and> (if truthy_embedding (encode env doc)
               then calls w' = calls w @ [EncodeCall doc, AddCall doc meta]
                    \<and> uuid_count w' = Suc (uuid_count w)
                    \<and> entries w' =
                        (if collection_add env (entries w)
                              \<lparr>memory_id = uuid4 env (uuid_count w),
                               embedding = the (encode env doc),
                               stored_document = doc, stored_metadata = meta\<rparr>
                         then entries w @
                              [\<lparr>memory_id = uuid4 env (uuid_count w),
                                embedding = the (encode env doc),
                                stored_document = doc, stored_metadata = meta\<rparr>]
                         else entries w)
               else calls w' = calls w @ [EncodeCall doc]
                    \<and> uuid_count w' = uuid_count w \<and> entries w' = entries w)"
proof (cases "truthy_embedding (encode env doc)")
  case True
  then obtain v where v: "encode env doc = Some v" "v \<noteq> []"
    by (auto simp: truthy_embedding_def split: option.splits)
  let ?w1 = "w\<lparr>model_loaded := True, calls := calls w @ [EncodeCall doc]\<rparr>"
  have c1: "collection_open ?w1 \<or> open_collection env" using assms(2) by simp
  show ?thesis
    using True v assms(2)
    by (simp add: and_then_def get_embedding_available[OF assms(1)] assms(3)
          add_memory_available[OF c1])
next
  case False
  then show ?thesis
    using assms(2)
    by (simp add: and_then_def get_embedding_available[OF assms(1)] assms(3) ok_def)
qed


lemma two_sides:
  assumes model: "model_loaded w \<or> load_model env"
    and coll: "collection_open w \<or> open_collection env"
    and nbu: "py_strip udoc \<noteq> []" and nba: "py_strip adoc \<noteq> []"
  shows
    "\<exists>w' new.
        (case and_then (get_embedding env udoc)
                (\<lambda>emb. if truthy_embedding emb then add_memory env emb udoc umeta else ok ()) w of
           (Inl e, w1) \<Rightarrow> (Inl e, w1)
         | (Inr _, w1) \<Rightarrow>
             and_then (get_embedding env adoc)
               (\<lambda>emb. if truthy_embedding emb then add_memory env emb adoc ameta else ok ()) w1)
        = (Inr (), w')
      \<and> entries w' = entries w @ new
      \<and> (encode env udoc = Some eu \<and> eu \<noteq> [] \<and> encode env adoc = Some ea \<and> ea \<noteq> [] \<longrightarrow>
           calls w' = calls w @ [EncodeCall udoc, AddCall udoc umeta,
                                 EncodeCall adoc, AddCall adoc ameta]
           \<and> (collection_add env (entries w)
                 \<lparr>memory_id = uuid4 env (uuid_count w), embedding = eu,
                  stored_document = udoc, stored_metadata = umeta\<rparr>
                \<and> collection_add env
                    (entries w @ [\<lparr>memory_id = uuid4 env (uuid_count w), embedding = eu,
                                   stored_document = udoc, stored_metadata = umeta\<rparr>])
                    \<lparr>memory_id = uuid4 env (Suc (uuid_count w)), embedding = ea,
                     stored_document = adoc, stored_metadata = ameta\<rparr> \<longrightarrow>
               new = [\<lparr>memory_id = uuid4 env (uuid_count w), embedding = eu,
                       stored_document = udoc, stored_metadata = umeta\<rparr>,
                      \<lparr>memory_id = uuid4 env (Suc (uuid_count w)), embedding = ea,
                       stored_document = adoc, stored_metadata = ameta\<rparr>]))
      \<and> (encode env udoc = Some eu \<and> eu \<noteq> []
           \<and> (\<forall>es e. stored_document e = udoc \<longrightarrow> collection_add env es e) \<longrightarrow>
           (\<exists>e\<in>set new. embedding e = eu \<and> stored_document e = udoc \<and> stored_metadata e = umeta))
      \<and> (encode env adoc = Some ea \<and> ea \<noteq> []
           \<and> (\<forall>es e. stored_document e = adoc \<longrightarrow> collection_add env es e) \<longrightarrow>
           (\<exists>e\<in>set new. embedding e = ea \<and> stored_document e = adoc \<and> stored_metadata e = ameta))
      \<and> ((\<forall>es e. \<not> collection_add env es e) \<longrightarrow> new = [])"
proof -
  let ?ue = "\<lparr>memory_id = uuid4 env (uuid_count w), embedding = the (encode env udoc),
              stored_document = udoc, stored_metadata = umeta\<rparr>"
  from side_step[OF model coll nbu, of umeta]
  obtain w1 where
    u_run: "and_then (get_embedding env udoc)
              (\<lambda>emb. if truthy_embedding emb then add_memory env emb udoc umeta else ok ()) w
            = (Inr (), w1)"
    and m1: "model_loaded w1" and c1: "collection_open w1 \<or> open_collection env"
    and u_yes: "truthy_embedding (encode env udoc) \<Longrightarrow>
                  calls w1 = calls w @ [EncodeCall udoc, AddCall udoc umeta]
                  \<and> uuid_count w1 = Suc (uuid_count w)
                  \<and> entries w1 = (if collection_add env (entries w) ?ue
                                   then entries w @ [?ue] else entries w)"
    and u_no: "\<not> truthy_embedding (encode env udoc) \<Longrightarrow>
                  calls w1 = calls w @ [EncodeCall udoc]
                  \<and> uuid_count w1 = uuid_count w \<and> entries w1 = entries w"
    by (auto split: if_splits)
  let ?ae = "\<lparr>memory_id = uuid4 env (uuid_count w1), embedding = the (encode env adoc),
              stored_document = adoc, stored_metadata = ameta\<rparr>"
  from m1 have m1': "model_loaded w1 \<or> load_model env" by simp
  from side_step[OF m1' c1 nba, of ameta]
  obtain w' where
    a_run: "and_then (get_embedding env adoc)
              (\<lambda>emb. if truthy_embedding emb then add_memory env emb adoc ameta else ok ()) w1
            = (Inr (), w')"
    and a_yes: "truthy_embedding (encode env adoc) \<Longrightarrow>
                  calls w' = calls w1 @ [EncodeCall adoc, AddCall adoc ameta]
                  \<and> entries w' = (if collection_add env (entries w1) ?ae
                                   then entries w1 @ [?ae] else entries w1)"
    and a_no: "\<not> truthy_embedding (encode env adoc) \<Longrightarrow>
                  calls w' = calls w1 @ [EncodeCall adoc] \<and> entries w' = entries w1"
    by (auto split: if_splits)
  have run: "(case and_then (get_embedding env udoc)
                (\<lambda>emb. if truthy_embedding emb then add_memory env emb udoc umeta else ok ()) w of
           (Inl e, w1) \<Rightarrow> (Inl e, w1)
         | (Inr _, w1) \<Rightarrow>
             and_then (get_embedding env adoc)
               (\<lambda>emb. if truthy_embedding emb then add_memory env emb adoc ameta else ok ()) w1)
        = (Inr (), w')"
    unfolding u_run by (simp only: prod.case sum.case a_run)
  define new1 where "new1 =
    (if truthy_embedding (encode env udoc) \<and> collection_add env (entries w) ?ue then [?ue] else [])"
  define new2 where "new2 =
    (if truthy_embedding (encode env adoc) \<and> collection_add env (entries w1) ?ae then [?ae] else [])"
  have n1: "entries w1 = entries w @ new1"
    "truthy_embedding (encode env udoc) \<and> collection_add env (entries w) ?ue \<Longrightarrow> new1 = [?ue]"
    using u_yes u_no by (cases "truthy_embedding (encode env udoc)"; simp add: new1_def)+
  have n2: "entries w' = entries w1 @ new2"
    "truthy_embedding (encode env adoc) \<and> collection_add env (entries w1) ?ae \<Longrightarrow> new2 = [?ae]"
    using a_yes a_no by (cases "truthy_embedding (encode env adoc)"; simp add: new2_def)+
  have ent: "entries w' = entries w @ (new1 @ new2)" using n1(1) n2(1) by simp
  have both: "calls w' = calls w @ [EncodeCall udoc, AddCall udoc umeta,
                                    EncodeCall adoc, AddCall adoc ameta]
              \<and> (collection_add env (entries w) ?ue
                   \<and> collection_add env (entries w @ [?ue])
                        (?ae\<lparr>memory_id := uuid4 env (Suc (uuid_count w))\<rparr>) \<longrightarrow>
                  new1 @ new2 = [?ue, ?ae\<lparr>memory_id := uuid4 env (Suc (uuid_count w))\<rparr>])"
    if "truthy_embedding (encode env udoc)" "truthy_embedding (encode env adoc)"
    using that u_yes a_yes n1 n2 by auto
  have user_side: "\<exists>e\<in>set (new1 @ new2). embedding e = eu \<and> stored_document e = udoc
                      \<and> stored_metadata e = umeta"
    if "encode env udoc = Some eu" "eu \<noteq> []"
       "\<forall>es e. stored_document e = udoc \<longrightarrow> collection_add env es e"
  proof -
    from that have "truthy_embedding (encode env udoc)" "collection_add env (entries w) ?ue"
      by (simp_all add: truthy_embedding_def)
    with n1(2) have "new1 = [?ue]" by simp
    with that(1) show ?thesis by simp
  qed
  have ai_side: "\<exists>e\<in>set (new1 @ new2). embedding e = ea \<and> stored_document e = adoc
                      \<and> stored_metadata e = ameta"
    if "encode env adoc = Some ea" "ea \<noteq> []"
       "\<forall>es e. stored_document e = adoc \<longrightarrow> collection_add env es e"
  proof -
    from that have "truthy_embedding (encode env adoc)" "collection_add env (entries w1) ?ae"
      by (simp_all add: truthy_embedding_def)
    with n2(2) have "new2 = [?ae]" by simp
    with that(1) show ?thesis by simp
  qed
  show ?thesis
    apply (rule exI[of _ w'], rule exI[of _ "new1 @ new2"])
    apply (intro conjI impI)
    subgoal by (rule run)
    subgoal by (rule ent)
    subgoal using both by (simp add: truthy_embedding_def)
    subgoal using both by (auto simp: truthy_embedding_def)
    subgoal using user_side by simp
    subgoal using ai_side by simp
    subgoal by (simp add: new1_def new2_def)
    done
qed


lemma add_interaction_with_handles:
  assumes model: "model_loaded w \<or> load_model env"
    and coll: "collection_open w \<or> open_collection env"
  shows
    "(let ts = utcnow_isoformat env (clock w);
         udoc = ''User said: '' @ u;
         adoc = ''AI responded: '' @ a;
         umeta = [(''type'', ''episodic''), (''role'', ''user''), (''timestamp'', ts),
                  (''session_id'', sid), (''embedding_model'', EMBEDDING_MODEL_NAME)];
         ameta = [(''type'', ''episodic''), (''role'', ''ai''), (''timestamp'', ts),
                  (''session_id'', sid), (''embedding_model'', EMBEDDING_MODEL_NAME)];
         uentry = \<lparr>memory_id = uuid4 env (uuid_count w), embedding = eu,
                    stored_document = udoc, stored_metadata = umeta\<rparr>;
         aentry = \<lparr>memory_id = uuid4 env (Suc (uuid_count w)), embedding = ea,
                    stored_document = adoc, stored_metadata = ameta\<rparr>
     in \<exists>w' new. add_interaction env u a sid w = (Inr (), w')
          \<and> entries w' = entries w @ new
          \<and> (encode env udoc = Some eu \<and> eu \<noteq> [] \<and> encode env adoc = Some ea \<and> ea \<noteq> [] \<longrightarrow>
               calls w' = calls w @ [EncodeCall udoc, AddCall udoc umeta,
                                     EncodeCall adoc, AddCall adoc ameta]
               \<and> (collection_add env (entries w) uentry
                    \<and> collection_add env (entries w @ [uentry]) aentry \<longrightarrow>
                   new = [uentry, aentry]))
          \<and> (encode env udoc = Some eu \<and> eu \<noteq> []
               \<and> (\<forall>es e. stored_document e = udoc \<longrightarrow> collection_add env es e) \<longrightarrow>
               (\<exists>e\<in>set new. embedding e = eu \<and> stored_document e = udoc
                            \<and> stored_metadata e = umeta))
          \<and> (encode env adoc = Some ea \<and> ea \<noteq> []
               \<and> (\<forall>es e. stored_document e = adoc \<longrightarrow> collection_add env es e) \<longrightarrow>
               (\<exists>e\<in>set new. embedding e = ea \<and> stored_document e = adoc
                            \<and> stored_metadata e = ameta))
          \<and> ((\<forall>es e. \<not> collection_add env es e) \<longrightarrow> new = []))"
proof -
  let ?w0 = "w\<lparr>clock := Suc (clock w)\<rparr>"
  have m0: "model_loaded ?w0 \<or> load_model env" and c0: "collection_open ?w0 \<or> open_collection env"
    using model coll by simp_all
  note sides = two_sides[where eu = eu and ea = ea
      and umeta = "interaction_metadata ''user'' (utcnow_isoformat env (clock w)) sid"
      and ameta = "interaction_metadata ''ai'' (utcnow_isoformat env (clock w)) sid",
      OF m0 c0 user_doc_not_blank[of u] ai_doc_not_blank[of a]]
  from sides show ?thesis
    unfolding Let_def add_interaction_sides interaction_metadata_def
    by simp
qed

lemma add_interaction_without_model:
  assumes "\<not> model_loaded w" and "\<not> load_model env"
  shows "add_interaction env u a sid w = (Inl ModelLoadError, w\<lparr>clock := Suc (clock w)\<rparr>)"
  using assms
  by (simp add: add_interaction_sides and_then_def get_embedding_unavailable)

text \<open>
  Claim C9, as amended.  With the embedding model and the collection available,
  \<open>add_interaction\<close> returns normally and only appends to the collection.  When both
  embeddings succeed, exactly two entries are submitted, in the order user, ai: they
  carry the roles \<^verbatim>\<open>user\<close> and \<^verbatim>\<open>ai\<close>, one and the same timestamp, the session
  identifier and the name of the embedding model; both are stored when the collection
  accepts them, and an entry the collection refuses is dropped without raising (none
  is stored when it refuses every entry).  Each side is stored whenever its own
  embedding succeeds and the collection accepts its document, whatever happens to the
  other side.  When the embedding model cannot be loaded, the load failure is raised
  out of \<open>add_interaction\<close> before either side is attempted.  The generation stage
  never raises: it keeps the generated response and appends a note to \<open>error\<close>, so a
  failure to persist does not abort the turn.
\<close>

theorem add_interaction_two_independent_entries:
  "((model_loaded w \<or> load_model env) \<and> (collection_open w \<or> open_collection env) \<longrightarrow>
             (let ts = utcnow_isoformat env (clock w);
         udoc = ''User said: '' @ u;
         adoc = ''AI responded: '' @ a;
         umeta = [(''type'', ''episodic''), (''role'', ''user''), (''timestamp'', ts),
                  (''session_id'', sid), (''embedding_model'', EMBEDDING_MODEL_NAME)];
         ameta = [(''type'', ''episodic''), (''role'', ''ai''), (''timestamp'', ts),
                  (''session_id'', sid), (''embedding_model'', EMBEDDING_MODEL_NAME)];
         uentry = \<lparr>memory_id = uuid4 env (uuid_count w), embedding = eu,
                    stored_document = udoc, stored_metadata = umeta\<rparr>;
         aentry = \<lparr>memory_id = uuid4 env (Suc (uuid_count w)), embedding = ea,
                    stored_document = adoc, stored_metadata = ameta\<rparr>
     in \<exists>w' new. add_interaction env u a sid w = (Inr (), w')
          \<and> entries w' = entries w @ new
          \<and> (encode env udoc = Some eu \<and> eu \<noteq> [] \<and> encode env adoc = Some ea \<and> ea \<noteq> [] \<longrightarrow>
               calls w' = calls w @ [EncodeCall udoc, AddCall udoc umeta,
                                     EncodeCall adoc, AddCall adoc ameta]
               \<and> (collection_add env (entries w) uentry
                    \<and> collection_add env (entries w @ [uentry]) aentry \<longrightarrow>
                   new = [uentry, aentry]))
          \<and> (encode env udoc = Some eu \<and> eu \<noteq> []
               \<and> (\<forall>es e. stored_document e = udoc \<longrightarrow> collection_add env es e) \<longrightarrow>
               (\<exists>e\<in>set new. embedding e = eu \<and> stored_document e = udoc
                            \<and> stored_metadata e = umeta))
          \<and> (encode env adoc = Some ea \<and> ea \<noteq> []
               \<and> (\<forall>es e. stored_document e = adoc \<longrightarrow> collection_add env es e) \<longrightarrow>
               (\<exists>e\<in>set new. embedding e = ea \<and> stored_document e = adoc
                            \<and> stored_metadata e = ameta))
          \<and> ((\<forall>es e. \<not> collection_add env es e) \<longrightarrow> new = [])))
   \<and> (\<not> model_loaded w \<and> \<not> load_model env \<longrightarrow>
        add_interaction env u a sid w = (Inl ModelLoadError, w\<lparr>clock := Suc (clock w)\<rparr>))
   \<and> (\<exists>s1 w1. generate_response_node env state w0 = (Inr s1, w1))
   \<and> (\<not> truthy_str (error state) \<and> \<not> needs_escalation state
        \<and> chain_invoke env RESPONSE_GENERATION_PROMPT (generation_inputs env state) = Some response
        \<and> \<not> model_loaded w0 \<and> \<not> load_model env \<longrightarrow>
        generate_response_node env state w0
          = (Inr (state\<lparr>generated_response := Some response,
                        error := Some (or_empty (error state)
                                       @ '' Failed to save interaction to memory.'')\<rparr>),
             w0\<lparr>calls := calls w0 @ [LLMCall RESPONSE_GENERATION_PROMPT],
                clock := Suc (clock w0)\<rparr>))"
proof (intro conjI impI)
  assume h: "(model_loaded w \<or> load_model env) \<and> (collection_open w \<or> open_collection env)"
  show "let ts = utcnow_isoformat env (clock w);
         udoc = ''User said: '' @ u;
         adoc = ''AI responded: '' @ a;
         umeta = [(''type'', ''episodic''), (''role'', ''user''), (''timestamp'', ts),
                  (''session_id'', sid), (''embedding_model'', EMBEDDING_MODEL_NAME)];
         ameta = [(''type'', ''episodic''), (''role'', ''ai''), (''timestamp'', ts),
                  (''session_id'', sid), (''embedding_model'', EMBEDDING_MODEL_NAME)];
         uentry = \<lparr>memory_id = uuid4 env (uuid_count w), embedding = eu,
                    stored_document = udoc, stored_metadata = umeta\<rparr>;
         aentry = \<lparr>memory_id = uuid4 env (Suc (uuid_count w)), embedding = ea,
                    stored_document = adoc, stored_metadata = ameta\<rparr>
     in \<exists>w' new. add_interaction env u a sid w = (Inr (), w')
          \<and> entries w' = entries w @ new
          \<and> (encode env udoc = Some eu \<and> eu \<noteq> [] \<and> encode env adoc = Some ea \<and> ea \<noteq> [] \<longrightarrow>
               calls w' = calls w @ [EncodeCall udoc, AddCall udoc umeta,
                                     EncodeCall adoc, AddCall adoc ameta]
               \<and> (collection_add env (entries w) uentry
                    \<and> collection_add env (entries w @ [uentry]) aentry \<longrightarrow>
                   new = [uentry, aentry]))
          \<and> (encode env udoc = Some eu \<and> eu \<noteq> []
               \<and> (\<forall>es e. stored_document e = udoc \<longrightarrow> collection_add env es e) \<longrightarrow>
               (\<exists>e\<in>set new. embedding e = eu \<and> stored_document e = udoc
                            \<and> stored_metadata e = umeta))
          \<and> (encode env adoc = Some ea \<and> ea \<noteq> []
               \<and> (\<forall>es e. stored_document e = adoc \<longrightarrow> collection_add env es e) \<longrightarrow>
               (\<exists>e\<in>set new. embedding e = ea \<and> stored_document e = adoc
                            \<and> stored_metadata e = ameta))
          \<and> ((\<forall>es e. \<not> collection_add env es e) \<longrightarrow> new = [])"
    by (rule add_interaction_with_handles[OF conjunct1[OF h] conjunct2[OF h]])
next
  assume "\<not> model_loaded w \<and> \<not> load_model env"
  then show "add_interaction env u a sid w = (Inl ModelLoadError, w\<lparr>clock := Suc (clock w)\<rparr>)"
    by (simp add: add_interaction_without_model)
next
  show "\<exists>s1 w1. generate_response_node env state w0 = (Inr s1, w1)"
    by (rule generate_response_node_total)
next
  assume "\<not> truthy_str (error state) \<and> \<not> needs_escalation state
        \<and> chain_invoke env RESPONSE_GENERATION_PROMPT (generation_inputs env state) = Some response
        \<and> \<not> model_loaded w0 \<and> \<not> load_model env"
  then show "generate_response_node env state w0
          = (Inr (state\<lparr>generated_response := Some response,
                        error := Some (or_empty (error state)
                                       @ '' Failed to save interaction to memory.'')\<rparr>),
             w0\<lparr>calls := calls w0 @ [LLMCall RESPONSE_GENERATION_PROMPT],
                clock := Suc (clock w0)\<rparr>)"
    by (simp add: generate_response_node_def io_defs Let_def add_interaction_without_model)
qed

text \<open>
  Claim C9 as stated fails in two ways.  With both embeddings succeeding and a
  collection that refuses the entries, the call returns normally and nothing is stored.
  With an embedding model that cannot be loaded, the failure is raised out of
  \<open>add_interaction\<close> and the reply is never attempted.
\<close>

theorem add_interaction_failures_counterexample:
  "encode refusing_env ''User said: hi'' = Some [1]
   \<and> encode refusing_env ''AI responded: hello'' = Some [1]
   \<and> add_interaction refusing_env ''hi'' ''hello'' ''s1'' startup_world
     = (Inr (),
        startup_world\<lparr>model_loaded := True, clock := 1, uuid_count := 2,
          calls := [EncodeCall ''User said: hi'',
                    AddCall ''User said: hi'' (interaction_metadata ''user'' ''t'' ''s1''),
                    EncodeCall ''AI responded: hello'',
                    AddCall ''AI responded: hello'' (interaction_metadata ''ai'' ''t'' ''s1'')]\<rparr>)
   \<and> entries startup_world = []
   \<and> add_interaction no_model_env ''hi'' ''hello'' ''s1'' startup_world
     = (Inl ModelLoadError, startup_world\<lparr>clock := 1\<rparr>)"
  by code_simp

text \<open>
  One turn persisted with the healthy collaborators; one with the encoder failing on
  the user side, where the reply is stored all the same; one with a collection that
  refuses every entry; and one with a model that cannot be loaded.
\<close>

theorem add_interaction_two_independent_entries_witness:
  "((model_loaded startup_world \<or> load_model healthy_env)
   \<and> (collection_open startup_world \<or> open_collection healthy_env)
   \<and> (\<exists>w'. add_interaction healthy_env ''hi'' ''hello'' ''s1'' startup_world = (Inr (), w')
          \<and> entries w' =
              [\<lparr>memory_id = ''u'', embedding = [1], stored_document = ''User said: hi'',
                stored_metadata = [(''type'', ''episodic''), (''role'', ''user''),
                   (''timestamp'', ''t''), (''session_id'', ''s1''),
                   (''embedding_model'', EMBEDDING_MODEL_NAME)]\<rparr>,
               \<lparr>memory_id = ''uu'', embedding = [1], stored_document = ''AI responded: hello'',
                stored_metadata = [(''type'', ''episodic''), (''role'', ''ai''),
                   (''timestamp'', ''t''), (''session_id'', ''s1''),
                   (''embedding_model'', EMBEDDING_MODEL_NAME)]\<rparr>]))
   \<and> ((model_loaded startup_world \<or> load_model user_encode_down_env)
   \<and> (collection_open startup_world \<or> open_collection user_encode_down_env)
   \<and> encode user_encode_down_env ''User said: hi'' = None
   \<and> (\<exists>w' new. add_interaction user_encode_down_env ''hi'' ''hello'' ''s1'' startup_world
                   = (Inr (), w')
          \<and> entries w' = entries startup_world @ new
          \<and> (\<exists>e\<in>set new. embedding e = [1] \<and> stored_document e = ''AI responded: hello'')))
   \<and> (\<exists>w'. add_interaction refusing_env ''hi'' ''hello'' ''s1'' startup_world = (Inr (), w')
          \<and> entries w' = [])
   \<and> add_interaction no_model_env ''hi'' ''hello'' ''s1'' startup_world
       = (Inl ModelLoadError, startup_world\<lparr>clock := Suc (clock startup_world)\<rparr>)"
proof -
  have healthy:
    "(model_loaded startup_world \<or> load_model healthy_env)
   \<and> (collection_open startup_world \<or> open_collection healthy_env)
   \<and> (\<exists>w'. add_interaction healthy_env ''hi'' ''hello'' ''s1'' startup_world = (Inr (), w')
          \<and> entries w' =
              [\<lparr>memory_id = ''u'', embedding = [1], stored_document = ''User said: hi'',
                stored_metadata = [(''type'', ''episodic''), (''role'', ''user''),
                   (''timestamp'', ''t''), (''session_id'', ''s1''),
                   (''embedding_model'', EMBEDDING_MODEL_NAME)]\<rparr>,
               \<lparr>memory_id = ''uu'', embedding = [1], stored_document = ''AI responded: hello'',
                stored_metadata = [(''type'', ''episodic''), (''role'', ''ai''),
                   (''timestamp'', ''t''), (''session_id'', ''s1''),
                   (''embedding_model'', EMBEDDING_MODEL_NAME)]\<rparr>])"
  proof -
    have m: "model_loaded startup_world \<or> load_model healthy_env"
      by (simp add: healthy_env_def)
    have c: "collection_open startup_world \<or> open_collection healthy_env"
      by (simp add: healthy_env_def)
    from add_interaction_two_independent_entries
        [where w = startup_world and env = healthy_env and u = "''hi''" and a = "''hello''"
           and sid = "''s1''" and eu = "[1]" and ea = "[1]",
         THEN conjunct1, rule_format, OF conjI[OF m c]]
    have "\<exists>w'. add_interaction healthy_env ''hi'' ''hello'' ''s1'' startup_world = (Inr (), w')
            \<and> entries w' =
                [\<lparr>memory_id = ''u'', embedding = [1], stored_document = ''User said: hi'',
                  stored_metadata = [(''type'', ''episodic''), (''role'', ''user''),
                     (''timestamp'', ''t''), (''session_id'', ''s1''),
                     (''embedding_model'', EMBEDDING_MODEL_NAME)]\<rparr>,
                 \<lparr>memory_id = ''uu'', embedding = [1], stored_document = ''AI responded: hello'',
                  stored_metadata = [(''type'', ''episodic''), (''role'', ''ai''),
                     (''timestamp'', ''t''), (''session_id'', ''s1''),
                     (''embedding_model'', EMBEDDING_MODEL_NAME)]\<rparr>]"
      unfolding Let_def by (auto simp: healthy_env_def startup_world_def)
    with m c show ?thesis by blast
  qed
  have user_side_down:
    "(model_loaded startup_world \<or> load_model user_encode_down_env)
   \<and> (collection_open startup_world \<or> open_collection user_encode_down_env)
   \<and> encode user_encode_down_env ''User said: hi'' = None
   \<and> (\<exists>w' new. add_interaction user_encode_down_env ''hi'' ''hello'' ''s1'' startup_world
                   = (Inr (), w')
          \<and> entries w' = entries startup_world @ new
          \<and> (\<exists>e\<in>set new. embedding e = [1] \<and> stored_document e = ''AI responded: hello''))"
  proof -
    have m: "model_loaded startup_world \<or> load_model user_encode_down_env"
      by (simp add: user_encode_down_env_def healthy_env_def)
    have c: "collection_open startup_world \<or> open_collection user_encode_down_env"
      by (simp add: user_encode_down_env_def healthy_env_def)
    have u: "encode user_encode_down_env ''User said: hi'' = None"
      by (simp add: user_encode_down_env_def)
    have a: "encode user_encode_down_env (''AI responded: '' @ ''hello'') = Some [1]"
      by (simp add: user_encode_down_env_def)
    have acc: "\<forall>es e. stored_document e = ''AI responded: '' @ ''hello'' \<longrightarrow>
                  collection_add user_encode_down_env es e"
      by (simp add: user_encode_down_env_def healthy_env_def)
    have ne: "[1::rat] \<noteq> []" by simp
    note t = add_interaction_two_independent_entries
        [where w = startup_world and env = user_encode_down_env and u = "''hi''"
           and a = "''hello''" and sid = "''s1''" and ea = "[1]" and eu = "[]",
         THEN conjunct1, rule_format, OF conjI[OF m c], unfolded Let_def]
    from t obtain w' new where
      r: "add_interaction user_encode_down_env ''hi'' ''hello'' ''s1'' startup_world = (Inr (), w')"
      and e: "entries w' = entries startup_world @ new"
      and ai: "encode user_encode_down_env (''AI responded: '' @ ''hello'') = Some [1] \<and> [1::rat] \<noteq> []
         \<and> (\<forall>es e. stored_document e = ''AI responded: '' @ ''hello'' \<longrightarrow>
                collection_add user_encode_down_env es e) \<longrightarrow>
       (\<exists>e\<in>set new. embedding e = [1] \<and> stored_document e = ''AI responded: '' @ ''hello''
           \<and> stored_metadata e = [(''type'', ''episodic''), (''role'', ''ai''),
                (''timestamp'', utcnow_isoformat user_encode_down_env (clock startup_world)),
                (''session_id'', ''s1''), (''embedding_model'', EMBEDDING_MODEL_NAME)])"
      by (elim exE conjE) (rule that, assumption+)
    from ai[rule_format, OF conjI[OF a conjI[OF ne acc]]]
    have "\<exists>e\<in>set new. embedding e = [1] \<and> stored_document e = ''AI responded: hello''"
      by (elim bexE conjE, intro bexI conjI) simp_all
    with r e have "\<exists>w' new. add_interaction user_encode_down_env ''hi'' ''hello'' ''s1'' startup_world
                     = (Inr (), w')
            \<and> entries w' = entries startup_world @ new
            \<and> (\<exists>e\<in>set new. embedding e = [1] \<and> stored_document e = ''AI responded: hello'')"
      by (intro exI conjI)
    with m c u show ?thesis by (intro conjI)
  qed
  have refused:
    "\<exists>w'. add_interaction refusing_env ''hi'' ''hello'' ''s1'' startup_world = (Inr (), w')
          \<and> entries w' = []"
  proof -
    have m: "model_loaded startup_world \<or> load_model refusing_env"
      by (simp add: refusing_env_def healthy_env_def)
    have c: "collection_open startup_world \<or> open_collection refusing_env"
      by (simp add: refusing_env_def healthy_env_def)
    have no: "\<forall>es e. \<not> collection_add refusing_env es e"
      by (simp add: refusing_env_def)
    note t = add_interaction_two_independent_entries
        [where w = startup_world and env = refusing_env and u = "''hi''"
           and a = "''hello''" and sid = "''s1''" and ea = "[1]" and eu = "[1]",
         THEN conjunct1, rule_format, OF conjI[OF m c], unfolded Let_def]
    from t obtain w' new where
      r: "add_interaction refusing_env ''hi'' ''hello'' ''s1'' startup_world = (Inr (), w')"
      and e: "entries w' = entries startup_world @ new"
      and none: "(\<forall>es e. \<not> collection_add refusing_env es e) \<longrightarrow> new = []"
      by (elim exE conjE) (rule that, assumption+)
    from none no have "new = []" by (rule mp)
    with e have "entries w' = []" by (simp add: startup_world_def)
    with r show ?thesis by (intro exI conjI)
  qed
  have nm: "\<not> model_loaded startup_world \<and> \<not> load_model no_model_env"
    by (simp add: startup_world_def no_model_env_def)
  note unloadable = add_interaction_two_independent_entries
      [where w = startup_world and env = no_model_env and u = "''hi''"
         and a = "''hello''" and sid = "''s1''",
       THEN conjunct2, THEN conjunct1, rule_format, OF nm]
  show ?thesis
    by (rule conjI[OF healthy conjI[OF user_side_down conjI[OF refused unloadable]]])
qed

text \<open>
  Claim C8 as stated fails when the embedding model cannot be loaded: the retrieval
  raises, and the retrieval stage sets \<open>error\<close>.
\<close>

theorem model_load_failure_raises_counterexample:
  "retrieve_relevant_memories no_model_env ''rough day at work'' ''s1'' 5 startup_world
     = (Inl ModelLoadError, startup_world)
   \<and> retrieve_memory_node no_model_env
        ((current_state ''s1'' ''had a rough day at work'' [])
           \<lparr>input_analysis := Some (JDict [(''dominant_emotion'', JStr ''sadness'')])\<rparr>)
        startup_world
     = (Inr ((current_state ''s1'' ''had a rough day at work'' [])
               \<lparr>input_analysis := Some (JDict [(''dominant_emotion'', JStr ''sadness'')]),
                retrieved_memories := Some [],
                error := Some ''Failed to retrieve memories.''\<rparr>),
        startup_world\<lparr>calls := [LLMCall MEMORY_RETRIEVAL_QUERY_PROMPT]\<rparr>)"
  by code_simp

text \<open>
  An encoder that fails on the query, the retrieval stage on that query, a blank query,
  and a model that cannot be loaded.
\<close>

theorem retrieve_without_embedding_is_empty_witness:
  "(model_loaded startup_world \<or> load_model encode_down_env)
   \<and> encode encode_down_env ''rough day at work'' = None
   \<and> (\<exists>w'. retrieve_relevant_memories encode_down_env ''rough day at work'' ''s1'' 5 startup_world
              = (Inr [], w')
            \<and> entries w' = entries startup_world)
   \<and> (\<exists>w'. retrieve_memory_node encode_down_env
               ((current_state ''s1'' ''had a rough day at work'' [])
                  \<lparr>input_analysis := Some (JDict [(''dominant_emotion'', JStr ''sadness'')])\<rparr>)
               startup_world
             = (Inr ((current_state ''s1'' ''had a rough day at work'' [])
                       \<lparr>input_analysis := Some (JDict [(''dominant_emotion'', JStr ''sadness'')]),
                        retrieved_memories := Some []\<rparr>), w'))
   \<and> py_strip ''  '' = []
   \<and> (\<exists>w'. retrieve_relevant_memories healthy_env ''  '' ''s1'' 5 startup_world = (Inr [], w')
            \<and> entries w' = entries startup_world)
   \<and> \<not> model_loaded startup_world \<and> \<not> load_model no_model_env
   \<and> retrieve_relevant_memories no_model_env ''exam'' ''s1'' 5 startup_world
       = (Inl ModelLoadError, startup_world)"
proof -
  let ?st = "(current_state ''s1'' ''had a rough day at work'' [] :: rat agent_state)
                  \<lparr>input_analysis := Some (JDict [(''dominant_emotion'', JStr ''sadness'')])\<rparr>"
  let ?a = "[(''dominant_emotion'', JStr ''sadness'')]"
  have m: "model_loaded startup_world \<or> load_model encode_down_env"
    by (simp add: encode_down_env_def healthy_env_def)
  have n: "encode encode_down_env ''rough day at work'' = None"
    by (simp add: encode_down_env_def)
  have m2: "model_loaded startup_world \<or> load_model healthy_env"
    by (simp add: healthy_env_def)
  have b: "py_strip ''  '' = []" by code_simp
  have q: "query_text encode_down_env ?st ?a = ''rough day at work''"
    by (simp add: query_text_def encode_down_env_def healthy_env_def)
  have st: "\<not> truthy_str (error ?st) \<and> input_analysis ?st = Some (JDict ?a) \<and> ?a \<noteq> []
           \<and> \<not> truthy (dict_get ?a ''error'' JNull)
           \<and> query_text encode_down_env ?st ?a = ''rough day at work''"
    unfolding q by (simp add: current_state_def truthy_str_def dict_get_def)
  have nm: "\<not> model_loaded startup_world \<and> \<not> load_model no_model_env"
    by (simp add: startup_world_def no_model_env_def)
  note t1 = retrieve_without_embedding_is_empty
      [where w = startup_world and env = encode_down_env and q = "''rough day at work''"
         and sid = "''s1''" and n = 5 and state = ?st and a = ?a,
       THEN conjunct1, rule_format, OF conjI[OF m disjI2[OF n]]]
  note 1 = t1[THEN conjunct1]
  note 2 = t1[THEN conjunct2, rule_format, OF st]
  note 3 = retrieve_without_embedding_is_empty
      [where w = startup_world and env = healthy_env and q = "''  ''"
         and sid = "''s1''" and n = 5,
       THEN conjunct1, rule_format, OF conjI[OF m2 disjI1[OF b]], THEN conjunct1]
  note 4 = retrieve_without_embedding_is_empty
      [where w = startup_world and env = no_model_env and q = "''exam''"
         and sid = "''s1''" and n = 5,
       THEN conjunct2, rule_format, OF nm, THEN conjunct1]
  show ?thesis
    apply (intro conjI)
    subgoal by (rule m)
    subgoal by (rule n)
    subgoal by (rule 1)
    subgoal using 2 by (simp add: current_state_def)
    subgoal by (rule b)
    subgoal by (rule 3)
    subgoal by (rule nm[THEN conjunct1])
    subgoal by (rule nm[THEN conjunct2])
    subgoal by (rule 4)
    done
qed

text \<open>A query made in session \<^verbatim>\<open>s1\<close> returns the entry written in session \<^verbatim>\<open>s2\<close>.\<close>

theorem retrieve_relevant_memories_ignores_session_witness:
  "retrieve_relevant_memories healthy_env ''exam'' ''s1'' 5 other_session_world
     = retrieve_relevant_memories healthy_env ''exam'' ''s2'' 5 other_session_world
   \<and> fst (retrieve_relevant_memories healthy_env ''exam'' ''s1'' 5 other_session_world)
     = Inr [\<lparr>document = ''User said: my exam is tomorrow'',
             metadata = interaction_metadata ''user'' ''t'' ''s2'', distance = 0\<rparr>]"
proof -
  have "fst (retrieve_relevant_memories healthy_env ''exam'' ''s1'' 5 other_session_world)
     = Inr [\<lparr>document = ''User said: my exam is tomorrow'',
             metadata = interaction_metadata ''user'' ''t'' ''s2'', distance = 0\<rparr>]"
    by code_simp
  with retrieve_relevant_memories_ignores_session
         [of healthy_env "''exam''" "''s1''" 5 other_session_world "''s2''"]
  show ?thesis by blast
qed

end
